theory Spec2Isabelle
  imports Main "HOL-Library.Word" "HOL-Library.Sublist"
begin

unbundle bit_operations_syntax

section \<open>Container codec (crypto.cc, crypto.h, status.h, constants.h)\<close>

text \<open>
  A \<open>std::string\<close> and a \<open>std::vector<unsigned char>\<close> are byte sequences; the casts
  between \<open>char\<close> and \<open>unsigned char\<close> keep the bit pattern, so both are lists of
  8-bit words. \<open>uint64_t\<close> and (on the LP64 hosts the editor is built for)
  \<open>unsigned long\<close> are 64-bit words, \<open>uint32_t\<close> is a 32-bit word.
  Status messages are kept as character strings.
\<close>

type_synonym byte = "8 word"
type_synonym bytes = "byte list"

subsection \<open>status.h\<close>

datatype StatusCode =
    kOk
  | kHeaderNoMagicNumber
  | kHeaderInvalidAlgorithm
  | kHeaderInvalidPlaintextSize
  | kHeaderInvalidIvSize
  | kInvalidKeySize
  | kInvalidKey
  | kInvalidDataSize
  | kInvalidIvSize
  | kUnknownError

datatype Error = Error (code: StatusCode) (message: string)

text \<open>
  \<open>Status<void>\<close> holds a \<open>std::optional<Error>\<close>: the default constructor leaves it
  empty, the two-argument constructor stores \<open>Error(code, message)\<close>.
  \<open>ok()\<close> is \<open>status_.has_value() && status_.value().code() == kOk\<close>.
\<close>

type_synonym Status = "Error option"

definition ok :: "Status \<Rightarrow> bool" where
  "ok st = (case st of None \<Rightarrow> False | Some e \<Rightarrow> code e = kOk)"

subsection \<open>constants.h\<close>

text \<open>
  \<open>kHeaderMagicNumber\<close> is an array of four characters without a terminator;
  \<open>std::string(kHeaderMagicNumber)\<close> is taken to be those four bytes, as the tests of
  the fixed output observe.
\<close>

definition kHeaderMagicNumber :: bytes where
  "kHeaderMagicNumber = [0x45, 0x54, 0x54, 0x45]"

definition kVersionMajor :: nat where "kVersionMajor = 0"
definition kVersionMinor :: nat where "kVersionMinor = 0"
definition kVersionPatch :: nat where "kVersionPatch = 1"

definition kHeaderCryptoAlgorithmSize :: nat where "kHeaderCryptoAlgorithmSize = 1"
definition kHeaderPlaintextSize :: nat where "kHeaderPlaintextSize = 8"
definition kHeaderIvSize :: nat where "kHeaderIvSize = 16"

text \<open>\<open>sizeof(kVersionMajor) + sizeof(kVersionMinor) + sizeof(kVersionPatch)\<close>, three \<open>uint8_t\<close>.\<close>

definition kHeaderVersionSize :: nat where "kHeaderVersionSize = 1 + 1 + 1"

definition kHeaderSize :: nat where
  "kHeaderSize = length kHeaderMagicNumber + kHeaderCryptoAlgorithmSize
     + kHeaderVersionSize + kHeaderPlaintextSize + kHeaderIvSize"

subsection \<open>crypto.h\<close>

datatype CryptoAlgorithm = kDefaultNone | kAES256CBC

record CryptoState =
  raw_key :: bytes
  hashed_key :: bytes
  plaintext :: bytes
  ciphertext :: bytes
  iv :: bytes
  ciphertext_size :: "64 word"
  plaintext_size :: "64 word"
  algorithm :: CryptoAlgorithm
  status :: Status

subsection \<open>The host and the vendored libraries\<close>

text \<open>
  crypto.cc calls two libraries that are vendored under third_party/ (picosha2 and
  plusaes) and asks the host for its byte order. They are parameters of the model,
  collected in one record:

  \<^item> \<open>little_endian\<close> is the result of \<open>IsSystemLittleEndian()\<close>;
  \<^item> \<open>hash256_hex_string\<close> is \<open>picosha2::hash256_hex_string\<close>;
  \<^item> \<open>encrypt_cbc data key iv encrypted_size\<close> is \<open>plusaes::encrypt_cbc\<close> called
    with padding on: the error it returns, or the content of the output buffer;
  \<^item> \<open>decrypt_cbc data key iv decrypted_size\<close> is \<open>plusaes::decrypt_cbc\<close> called
    with a non-null \<open>padded_size\<close>: the error it returns, or the content of the
    output buffer of \<open>decrypted_size\<close> bytes;
  \<^item> \<open>vector_allocates n\<close> tells whether the host has the memory to build a
    \<open>std::vector<unsigned char>\<close> of \<open>n\<close> bytes, and \<open>string_allocates n\<close> whether it
    can then build a \<open>std::string\<close> of \<open>n\<close> bytes next to it.

  The sizes that the C++ code passes next to each pointer are the lengths of the lists.
  Of the error codes of plusaes the code tells three apart; every other one takes the
  \<open>default\<close> branch of its switches.
\<close>

datatype PlusaesError =
    kErrorInvalidKey
  | kErrorInvalidKeySize
  | kErrorInvalidIvSize
  | kErrorOther

record Host =
  little_endian :: bool
  hash256_hex_string :: "bytes \<Rightarrow> bytes"
  encrypt_cbc :: "bytes \<Rightarrow> bytes \<Rightarrow> bytes \<Rightarrow> nat \<Rightarrow> PlusaesError + bytes"
  decrypt_cbc :: "bytes \<Rightarrow> bytes \<Rightarrow> bytes \<Rightarrow> nat \<Rightarrow> PlusaesError + bytes"
  vector_allocates :: "64 word \<Rightarrow> bool"
  string_allocates :: "64 word \<Rightarrow> bool"

text \<open>
  \<open>std::vector<unsigned char>::max_size()\<close> on an LP64 host, \<open>PTRDIFF_MAX\<close>: the
  constructor throws \<open>std::length_error\<close> for a larger size.
\<close>

definition vector_max_size :: "64 word" where
  "vector_max_size = 0x7FFFFFFFFFFFFFFF"

text \<open>
  Modelled from the spec: \<open>plusaes::get_padded_encrypted_size\<close>, a function of the
  vendored plusaes library. The spec gives the padded size as \<open>((n / 16) + 1) * 16\<close>;
  the arithmetic is that of \<open>unsigned long\<close>.
\<close>

definition get_padded_encrypted_size :: "64 word \<Rightarrow> 64 word" where
  "get_padded_encrypted_size n = (n div 16 + 1) * 16"

subsection \<open>crypto.cc\<close>

definition GetPlaintextSizeFromCiphertext :: "bool \<Rightarrow> bytes \<Rightarrow> 64 word" where
  "GetPlaintextSizeFromCiphertext le ciphertext0 =
     (if length ciphertext0 < 8 then 0
      else
        let cstr = take 8 ciphertext0 in
        if le then
          push_bit 56 (ucast (cstr ! 0)) OR push_bit 48 (ucast (cstr ! 1)) OR
          push_bit 40 (ucast (cstr ! 2)) OR push_bit 32 (ucast (cstr ! 3)) OR
          push_bit 24 (ucast (cstr ! 4)) OR push_bit 16 (ucast (cstr ! 5)) OR
          push_bit 8 (ucast (cstr ! 6)) OR ucast (cstr ! 7)
        else
          push_bit 56 (ucast (cstr ! 7)) OR push_bit 48 (ucast (cstr ! 6)) OR
          push_bit 40 (ucast (cstr ! 5)) OR push_bit 32 (ucast (cstr ! 4)) OR
          push_bit 24 (ucast (cstr ! 3)) OR push_bit 16 (ucast (cstr ! 2)) OR
          push_bit 8 (ucast (cstr ! 1)) OR ucast (cstr ! 0))"

definition CreateEmptyCryptoState :: CryptoState where
  "CreateEmptyCryptoState =
     \<lparr> raw_key = [], hashed_key = [], plaintext = [], ciphertext = [], iv = [],
       ciphertext_size = 0, plaintext_size = 0, algorithm = kDefaultNone,
       status = Some (Error kOk '''') \<rparr>"

definition CreateCryptoStateWithStatus :: "StatusCode \<Rightarrow> string \<Rightarrow> CryptoState" where
  "CreateCryptoStateWithStatus status_code msg =
     CreateEmptyCryptoState \<lparr> status := Some (Error status_code msg) \<rparr>"

text \<open>
  \<open>CryptoState()\<close>, the value-initialised struct that the dispatchers return for an
  algorithm other than AES-256-CBC: empty strings, zeroed scalars, an empty status.
\<close>

definition DefaultCryptoState :: CryptoState where
  "DefaultCryptoState =
     \<lparr> raw_key = [], hashed_key = [], plaintext = [], ciphertext = [], iv = [],
       ciphertext_size = 0, plaintext_size = 0, algorithm = kDefaultNone,
       status = None \<rparr>"

definition HashRawKey :: "Host \<Rightarrow> bytes \<Rightarrow> bytes" where
  "HashRawKey H raw_key0 = take 32 (hash256_hex_string H raw_key0)"

text \<open>Each \<open>header += (plaintext_size >> k) & 0xFF\<close> appends the value converted to \<open>char\<close>.\<close>

definition ConstructPlaintextSizeHeaderForCiphertext :: "bool \<Rightarrow> 64 word \<Rightarrow> bytes" where
  "ConstructPlaintextSizeHeaderForCiphertext le plaintext_size0 =
     (if le then
        [ucast (drop_bit 56 plaintext_size0 AND 0xFF), ucast (drop_bit 48 plaintext_size0 AND 0xFF),
         ucast (drop_bit 40 plaintext_size0 AND 0xFF), ucast (drop_bit 32 plaintext_size0 AND 0xFF),
         ucast (drop_bit 24 plaintext_size0 AND 0xFF), ucast (drop_bit 16 plaintext_size0 AND 0xFF),
         ucast (drop_bit 8 plaintext_size0 AND 0xFF), ucast (plaintext_size0 AND 0xFF)]
      else
        [ucast (plaintext_size0 AND 0xFF), ucast (drop_bit 8 plaintext_size0 AND 0xFF),
         ucast (drop_bit 16 plaintext_size0 AND 0xFF), ucast (drop_bit 24 plaintext_size0 AND 0xFF),
         ucast (drop_bit 32 plaintext_size0 AND 0xFF), ucast (drop_bit 40 plaintext_size0 AND 0xFF),
         ucast (drop_bit 48 plaintext_size0 AND 0xFF), ucast (drop_bit 56 plaintext_size0 AND 0xFF)])"

text \<open>
  The three \<open>erase\<close> calls drop 8, 8 and 16 bytes; the loop that fills \<open>iv\<close> reads the
  first 16 bytes of what is left, which are there because the input has at least
  \<open>kHeaderSize\<close> bytes.
\<close>

definition SetupCryptoStateFromCiphertextAES256CBC ::
    "Host \<Rightarrow> bytes \<Rightarrow> bytes \<Rightarrow> CryptoAlgorithm \<Rightarrow> CryptoState" where
  "SetupCryptoStateFromCiphertextAES256CBC H ciphertext0 raw_key0 algorithm0 =
     (if length ciphertext0 < kHeaderSize then
        CreateCryptoStateWithStatus kInvalidDataSize ''Ciphertext is too small to contain header''
      else if raw_key0 = [] then
        CreateCryptoStateWithStatus kInvalidKeySize ''Key is empty''
      else
        let ciphertext1 = drop (length kHeaderMagicNumber + kHeaderCryptoAlgorithmSize
                                  + kHeaderVersionSize) ciphertext0;
            plaintext_size0 = GetPlaintextSizeFromCiphertext (little_endian H) ciphertext1;
            ciphertext2 = drop kHeaderPlaintextSize ciphertext1;
            iv0 = take kHeaderIvSize ciphertext2;
            ciphertext3 = drop kHeaderIvSize ciphertext2
        in \<lparr> raw_key = raw_key0, hashed_key = HashRawKey H raw_key0, plaintext = [],
             ciphertext = ciphertext3, iv = iv0,
             ciphertext_size = of_nat (length ciphertext3), plaintext_size = plaintext_size0,
             algorithm = algorithm0, status = Some (Error kOk '''') \<rparr>)"

definition SetupCryptoStateFromCiphertext ::
    "Host \<Rightarrow> bytes \<Rightarrow> bytes \<Rightarrow> CryptoAlgorithm \<Rightarrow> CryptoState" where
  "SetupCryptoStateFromCiphertext H ciphertext0 raw_key0 algorithm0 =
     (case algorithm0 of
        kAES256CBC \<Rightarrow> SetupCryptoStateFromCiphertextAES256CBC H ciphertext0 raw_key0 algorithm0
      | _ \<Rightarrow> DefaultCryptoState)"

text \<open>The switch that turns a plusaes error into a state, the same in both directions.\<close>

definition CryptoStateOfPlusaesError :: "PlusaesError \<Rightarrow> CryptoState" where
  "CryptoStateOfPlusaesError e =
     (case e of
        kErrorInvalidKey \<Rightarrow> CreateCryptoStateWithStatus kInvalidKey ''Key is incorrect''
      | kErrorInvalidKeySize \<Rightarrow> CreateCryptoStateWithStatus kInvalidKeySize ''Key is not 256 bits''
      | kErrorInvalidIvSize \<Rightarrow> CreateCryptoStateWithStatus kInvalidIvSize ''IV is not 128 bits''
      | kErrorOther \<Rightarrow> CreateCryptoStateWithStatus kUnknownError ''Unknown error'')"

text \<open>
  \<open>unsigned char iv[kHeaderIvSize]; memcpy(iv, src, sizeof(iv)); iv[kHeaderIvSize - 1] = '\0';\<close>
  as both \<open>EncryptAES256CBC\<close> and \<open>DecryptAES256CBC\<close> have it. The copy reads 16
  bytes of the source; a shorter source is read out of bounds, which has no defined
  result.
\<close>

definition NullTerminatedIv :: "bytes \<Rightarrow> bytes option" where
  "NullTerminatedIv src =
     (if length src < kHeaderIvSize then None
      else Some ((take kHeaderIvSize src)[kHeaderIvSize - 1 := 0]))"

text \<open>
  \<open>for (uint32_t i = 0; i < ciphertext_size; i++) ciphertext_str += ciphertext[i];\<close>
  The counter is 32 bits wide and the bound is an \<open>unsigned long\<close>: the comparison is
  made at 64 bits and \<open>i++\<close> wraps at \<open>2^32\<close>. The loop may not end, so it is a partial
  function and \<open>None\<close> stands for no result.
\<close>

partial_function (option) AppendCiphertext ::
    "32 word \<Rightarrow> 64 word \<Rightarrow> bytes \<Rightarrow> bytes \<Rightarrow> bytes option" where
  "AppendCiphertext i ciphertext_size0 ciphertext0 ciphertext_str =
     (if ucast i < ciphertext_size0 then
        (if unat i < length ciphertext0 then
           AppendCiphertext (i + 1) ciphertext_size0 ciphertext0
             (ciphertext_str @ [ciphertext0 ! unat i])
         else None)
      else Some ciphertext_str)"

declare AppendCiphertext.simps [code]

text \<open>\<open>std::to_string\<close> of a \<open>uint8_t\<close> version number below ten: one ASCII digit.\<close>

definition to_string_digit :: "nat \<Rightarrow> bytes" where
  "to_string_digit n = [0x30 + of_nat n]"

text \<open>
  \<open>EncryptAES256CBC\<close>. The result is \<open>None\<close> where the C++ function has no defined
  result or does not return: a \<open>raw_iv\<close> shorter than the 16 bytes that \<open>memcpy\<close>
  reads, a hashed key shorter than the 32 bytes that \<open>key_from_string\<close> reads, and the
  copy loop above when it does not end.
\<close>

definition EncryptAES256CBC :: "Host \<Rightarrow> bytes \<Rightarrow> bytes \<Rightarrow> bytes \<Rightarrow> CryptoState option" where
  "EncryptAES256CBC H plaintext0 raw_key0 raw_iv =
     (if raw_key0 = [] then Some (CreateCryptoStateWithStatus kInvalidKeySize ''Key is empty'')
      else
        let plaintext_size0 = (of_nat (length plaintext0) :: 64 word);
            key = HashRawKey H raw_key0
        in case NullTerminatedIv raw_iv of
             None \<Rightarrow> None
           | Some iv0 \<Rightarrow>
              (if length key < 32 then None
               else
                 let key_vector = take 32 key;
                     ciphertext_size0 = get_padded_encrypted_size plaintext_size0
                 in (case encrypt_cbc H plaintext0 key_vector iv0 (unat ciphertext_size0) of
                      Inl e \<Rightarrow> Some (CryptoStateOfPlusaesError e)
                    | Inr ciphertext0 \<Rightarrow>
                        (case AppendCiphertext 0 ciphertext_size0 ciphertext0
                                (kHeaderMagicNumber @ [0x31]
                                 @ to_string_digit kVersionMajor
                                 @ to_string_digit kVersionMinor
                                 @ to_string_digit kVersionPatch
                                 @ ConstructPlaintextSizeHeaderForCiphertext
                                     (little_endian H) plaintext_size0
                                 @ iv0) of
                           None \<Rightarrow> None
                         | Some ciphertext_str \<Rightarrow>
                             Some \<lparr> raw_key = raw_key0, hashed_key = key,
                                    plaintext = plaintext0, ciphertext = ciphertext_str,
                                    iv = raw_iv, ciphertext_size = ciphertext_size0,
                                    plaintext_size = plaintext_size0,
                                    algorithm = kAES256CBC,
                                    status = Some (Error kOk '''') \<rparr>))))"

definition Encrypt :: "Host \<Rightarrow> bytes \<Rightarrow> bytes \<Rightarrow> bytes \<Rightarrow> CryptoAlgorithm \<Rightarrow> CryptoState option" where
  "Encrypt H plaintext0 key iv0 algorithm0 =
     (case algorithm0 of
        kAES256CBC \<Rightarrow> EncryptAES256CBC H plaintext0 key iv0
      | _ \<Rightarrow> Some DefaultCryptoState)"

text \<open>
  \<open>DecryptAES256CBC\<close>. The setup never returns an empty status, so
  \<open>state.status.error()\<close> has an error to return whenever \<open>ok()\<close> is false. \<open>state.iv\<close>
  has 16 bytes whenever the setup succeeded, so the copy into \<open>iv\<close> stays in bounds.

  \<open>std::vector<unsigned char> decrypted(plaintext_size)\<close> is built, before the cipher is
  called, with the size that the header gives, whatever the length of the input is.
  The constructor throws \<open>std::length_error\<close> when the size is above \<open>max_size()\<close> and
  \<open>std::bad_alloc\<close> when the host has not the memory; nothing catches either, and the
  result is \<open>None\<close>. After a successful cipher call the buffer is copied into the
  string \<open>plaintext\<close> of the same size, which the host may again fail to allocate.
  (The other buffers, and those of \<open>EncryptAES256CBC\<close>, are as large as the input that
  the caller already holds; memory is taken to suffice for them.)
\<close>

definition DecryptAES256CBC ::
    "Host \<Rightarrow> bytes \<Rightarrow> bytes \<Rightarrow> CryptoAlgorithm \<Rightarrow> CryptoState option" where
  "DecryptAES256CBC H ciphertext0 raw_key0 algorithm0 =
     (let state = SetupCryptoStateFromCiphertextAES256CBC H ciphertext0 raw_key0 algorithm0 in
      if \<not> ok (status state) \<and>
         (case status state of
            None \<Rightarrow> False
          | Some e \<Rightarrow> code e = kInvalidDataSize \<or> code e = kInvalidKeySize)
      then Some state
      else
        let iv0 = (take kHeaderIvSize (iv state))[kHeaderIvSize - 1 := 0];
            plaintext_size0 = plaintext_size state
        in if plaintext_size0 = 0 then
             Some \<lparr> raw_key = raw_key state, hashed_key = hashed_key state, plaintext = [],
                    ciphertext = ciphertext state, iv = iv state,
                    ciphertext_size = ciphertext_size state, plaintext_size = plaintext_size0,
                    algorithm = kAES256CBC, status = Some (Error kOk '''') \<rparr>
           else if vector_max_size < plaintext_size0
                   \<or> \<not> vector_allocates H plaintext_size0 then None
           else
            (case decrypt_cbc H (ciphertext state) (hashed_key state) iv0
                    (unat plaintext_size0) of
               Inl e \<Rightarrow> Some (CryptoStateOfPlusaesError e)
             | Inr decrypted \<Rightarrow>
                 if \<not> string_allocates H plaintext_size0 then None
                 else
                   Some \<lparr> raw_key = raw_key state, hashed_key = hashed_key state,
                          plaintext = decrypted, ciphertext = ciphertext state, iv = iv state,
                          ciphertext_size = ciphertext_size state,
                          plaintext_size = plaintext_size0,
                          algorithm = kAES256CBC, status = Some (Error kOk '''') \<rparr>))"

definition Decrypt ::
    "Host \<Rightarrow> bytes \<Rightarrow> bytes \<Rightarrow> CryptoAlgorithm \<Rightarrow> CryptoState option" where
  "Decrypt H ciphertext0 raw_key0 algorithm0 =
     (case algorithm0 of
        kAES256CBC \<Rightarrow> DecryptAES256CBC H ciphertext0 raw_key0 algorithm0
      | _ \<Rightarrow> Some DefaultCryptoState)"

text \<open>The file system is a map from paths to contents; a file that cannot be opened is absent.\<close>

type_synonym FileSystem = "string \<rightharpoonup> bytes"

definition ReadFileToString :: "FileSystem \<Rightarrow> string \<Rightarrow> bytes option" where
  "ReadFileToString fs path = fs path"

text \<open>
  \<open>IsKeyCorrect\<close> does not return where \<open>Decrypt\<close> throws.
\<close>

definition IsKeyCorrect ::
    "Host \<Rightarrow> FileSystem \<Rightarrow> bytes \<Rightarrow> string \<Rightarrow> CryptoAlgorithm \<Rightarrow> bool option" where
  "IsKeyCorrect H fs key path algorithm0 =
     (case ReadFileToString fs path of
        None \<Rightarrow> Some False
      | Some ciphertext0 \<Rightarrow>
          (case Decrypt H ciphertext0 key algorithm0 of
             None \<Rightarrow> None
           | Some state \<Rightarrow> Some (ok (status state))))"

section \<open>Editor (editor.cc, editor.h)\<close>

text \<open>
  The bytes of a row, a file name and the status message are characters. The array
  \<open>state->row\<close> with \<open>state->numrows\<close> is the list of the rows in use. A row keeps its
  \<open>int size\<close> (the field \<open>size'\<close>) next to the bytes of \<open>chars\<close>; \<open>rsize\<close> is the
  length of \<open>render\<close>.

  A C \<open>int\<close> has 32 bits. Where the source computes with sizes (the conversion of
  \<open>len\<close> in \<open>InsertRow\<close>, the buffer size and the write index of \<open>UpdateRow\<close>, the
  total of \<open>RowsToString\<close>) the limits are written out; a signed overflow, a read or
  a write outside a buffer have no defined result. The counters \<open>numrows\<close>, \<open>dirty\<close>,
  \<open>idx\<close> and \<open>quit_times\<close> move by one and are taken to stay far from the limit,
  and \<open>malloc\<close> and \<open>realloc\<close> to find the memory they are asked for.

  A function that may end the process with \<open>exit\<close>, or whose result may be undefined,
  returns an outcome.
\<close>

datatype 'a outcome = Returns 'a | Exit int | Undefined

subsection \<open>editor.h\<close>

definition INT_MAX :: int where "INT_MAX = 2147483647"
definition UINT32_MAX :: nat where "UINT32_MAX = 4294967295"

text \<open>
  \<open>int + int\<close>: \<open>None\<close> where the sum is outside the range of \<open>int\<close>.
\<close>

definition int_add :: "int \<Rightarrow> int \<Rightarrow> int option" where
  "int_add a b = (if a + b < - INT_MAX - 1 \<or> INT_MAX < a + b then None else Some (a + b))"

text \<open>
  The conversion of a \<open>size_t\<close> to \<open>int\<close>: the low 32 bits, read as two's complement.
\<close>

definition int_of_size_t :: "nat \<Rightarrow> int" where
  "int_of_size_t n =
     (let m = int n mod 4294967296 in if m \<le> INT_MAX then m else m - 4294967296)"

definition HL_NORMAL :: nat where "HL_NORMAL = 0"

definition TAB :: char where "TAB = CHR 0x09"
definition CTRL_Q :: int where "CTRL_Q = 17"

record Row =
  idx :: int
  size' :: int
  chars :: string
  render :: string
  hl :: "nat list"
  hl_oc :: int

text \<open>
  The fields of \<open>State\<close> that the functions below read or write. The cursor, the
  viewport, the screen size and the password machines are left to the extension of
  the record. The model is of an editor with no syntax rule set selected
  (\<open>state->syntax == NULL\<close>, as \<open>Init\<close> leaves it and as it stays for a file name that
  matches no pattern of \<open>HLDB\<close>).
\<close>

record State =
  row :: "Row list"
  dirty :: int
  quit_times :: int
  statusmsg :: string
  statusmsg_time :: int
  crypto_algorithm :: CryptoAlgorithm

definition numrows :: "'a State_scheme \<Rightarrow> int" where
  "numrows st = int (length (row st))"

subsection \<open>Status message\<close>

text \<open>The conversion \<open>%d\<close> of \<open>printf\<close>.\<close>

fun decimal_digits :: "nat \<Rightarrow> string" where
  "decimal_digits n =
     (if n < 10 then [char_of (48 + n)]
      else decimal_digits (n div 10) @ [char_of (48 + n mod 10)])"

declare decimal_digits.simps [simp del]

definition printf_d :: "int \<Rightarrow> string" where
  "printf_d i = (if i < 0 then CHR ''-'' # decimal_digits (nat (- i)) else decimal_digits (nat i))"

text \<open>
  \<open>SetStatusMessage\<close>: \<open>vsnprintf\<close> writes at most \<open>sizeof(state->statusmsg) - 1 = 79\<close>
  characters of the formatted text, which is the argument \<open>msg\<close> here; \<open>now\<close> is the
  value of \<open>time(NULL)\<close>.
\<close>

definition SetStatusMessage :: "int \<Rightarrow> 'a State_scheme \<Rightarrow> string \<Rightarrow> 'a State_scheme" where
  "SetStatusMessage now st msg = st \<lparr> statusmsg := take 79 msg, statusmsg_time := now \<rparr>"

subsection \<open>Rows\<close>

text \<open>
  \<open>UpdateSyntax\<close> with \<open>state->syntax == NULL\<close>: every byte of \<open>hl\<close> is \<open>HL_NORMAL\<close> and
  the function returns before it looks at the neighbouring rows.
\<close>

definition UpdateSyntax :: "Row \<Rightarrow> Row" where
  "UpdateSyntax r = r \<lparr> hl := replicate (length (render r)) HL_NORMAL \<rparr>"

text \<open>
  The inner loop of \<open>UpdateRow\<close> for a tab, after the first space is written:
  \<open>while ((idx + 1) % 8 != 0) row->render[idx++] = ' ';\<close>
  The write index \<open>idx\<close> is an \<open>int\<close> and is the length of what is rendered so far;
  \<open>idx + 1\<close> overflows at \<open>INT_MAX\<close>.
\<close>

function TabFill :: "string \<Rightarrow> string option" where
  "TabFill r =
     (if INT_MAX \<le> int (length r) then None
      else if (length r + 1) mod 8 \<noteq> 0 then TabFill (r @ [CHR 0x20])
      else Some r)"
  by pat_completeness auto
termination
proof (relation "measure (\<lambda>r. 7 - length r mod 8)")
  show "wf (measure (\<lambda>r :: string. 7 - length r mod 8))"
    by simp
next
  fix r :: string
  assume a: "(length r + 1) mod 8 \<noteq> 0"
  have "length r mod 8 < 8" by simp
  moreover from a have "length r mod 8 \<noteq> 7"
    by (simp add: mod_Suc split: if_splits)
  ultimately have lt: "length r mod 8 < 7" by linarith
  then have "Suc (length r) mod 8 = Suc (length r mod 8)"
    by (simp add: mod_Suc)
  with lt show "(r @ [CHR 0x20], r) \<in> measure (\<lambda>r. 7 - length r mod 8)"
    by simp
qed

declare TabFill.simps [simp del]

text \<open>
  The render loop of \<open>UpdateRow\<close> over the bytes of the row: every
  \<open>row->render[idx++] = ...\<close> needs \<open>idx\<close> below \<open>INT_MAX\<close>.
\<close>

fun RenderChars :: "string \<Rightarrow> string \<Rightarrow> string option" where
  "RenderChars [] r = Some r"
| "RenderChars (c # cs) r =
     (if INT_MAX \<le> int (length r) then None
      else if c = TAB then
        (case TabFill (r @ [CHR 0x20]) of
           None \<Rightarrow> None
         | Some r' \<Rightarrow> RenderChars cs r')
      else RenderChars cs (r @ [c]))"

text \<open>
  \<open>UpdateRow\<close>. The loops run over the first \<open>size\<close> bytes of \<open>chars\<close>, none for a
  negative \<open>size\<close>. \<open>tabs\<close> is an \<open>unsigned int\<close> and \<open>tabs * 8\<close> is computed at that
  width before it is added to \<open>(unsigned long long)row->size\<close>; \<open>nonprint\<close> stays zero.
  A row whose \<open>allocsize\<close> passes \<open>UINT32_MAX\<close> ends the process with status 1. The
  buffer that \<open>malloc\<close> then returns has \<open>row->size + tabs * 8 + 1\<close> bytes, computed
  at 32 bits: it is too small for what is written when \<open>size\<close> is negative (then
  \<open>size = -1\<close> and the buffer is empty) or when \<open>tabs * 8\<close> has wrapped.
\<close>

definition UpdateRow :: "Row \<Rightarrow> Row outcome" where
  "UpdateRow r =
     (if int (length (chars r)) < size' r then Undefined
      else
        let content = take (nat (size' r)) (chars r);
            tabs = length (filter (\<lambda>c. c = TAB) content);
            nonprint = (0 :: nat);
            allocsize = (nat (size' r mod 18446744073709551616) + (tabs * 8) mod 4294967296
                           + (nonprint * 9) mod 4294967296 + 1) mod 18446744073709551616
        in if allocsize > UINT32_MAX then Exit 1
           else if size' r < 0 \<or> 4294967296 \<le> tabs * 8 then Undefined
           else
             (case RenderChars content [] of
                None \<Rightarrow> Undefined
              | Some rendered \<Rightarrow> Returns (UpdateSyntax (r \<lparr> render := rendered \<rparr>))))"

text \<open>
  \<open>InsertRow(state, at, s, len)\<close> with \<open>s\<close> the \<open>len\<close> bytes of the new row;
  \<open>state->row[at].size = len\<close> converts the \<open>size_t\<close> to \<open>int\<close>. The rows from \<open>at\<close> on
  move one place down and their \<open>idx\<close> is incremented. A negative \<open>at\<close>, for which the
  source would address memory before the array, is not a position.
\<close>

definition InsertRow :: "'a State_scheme \<Rightarrow> nat \<Rightarrow> string \<Rightarrow> 'a State_scheme outcome" where
  "InsertRow st at s =
     (if int at > numrows st then Returns st
      else
        let shifted = (if int at \<noteq> numrows st
                       then map (\<lambda>r. r \<lparr> idx := idx r + 1 \<rparr>) (drop at (row st))
                       else drop at (row st))
        in case UpdateRow \<lparr> idx = int at, size' = int_of_size_t (length s), chars = s,
                            render = [], hl = [], hl_oc = 0 \<rparr> of
             Exit n \<Rightarrow> Exit n
           | Undefined \<Rightarrow> Undefined
           | Returns r \<Rightarrow>
               Returns (st \<lparr> row := take at (row st) @ [r] @ shifted,
                             dirty := dirty st + 1 \<rparr>))"

text \<open>
  \<open>DeleteRow(state, at)\<close>: the rows after \<open>at\<close> move one place up, and the loop
  \<open>for (int j = at; j < state->numrows - 1; j++) state->row[j].idx++;\<close> runs over the
  rows that moved.
\<close>

definition DeleteRow :: "'a State_scheme \<Rightarrow> nat \<Rightarrow> 'a State_scheme" where
  "DeleteRow st at =
     (if int at \<ge> numrows st then st
      else st \<lparr> row := take at (row st)
                        @ map (\<lambda>r. r \<lparr> idx := idx r + 1 \<rparr>) (drop (Suc at) (row st)),
                dirty := dirty st + 1 \<rparr>)"

text \<open>
  \<open>RowsToString\<close>. The first loop adds \<open>state->row[j].size + 1\<close> to the \<open>int totlen\<close>
  for every row; \<open>*buflen\<close> is that total, and \<open>totlen++\<close> makes room for the
  terminator. The second loop copies \<open>size\<close> bytes of each row and a newline behind
  the write pointer \<open>p\<close>; \<open>memcpy\<close> with a negative \<open>size\<close>, or with more than the row
  holds, reads outside the row. The result is the buffer up to the terminating NUL,
  and \<open>*buflen\<close>.
\<close>

fun CountBytes :: "Row list \<Rightarrow> int \<Rightarrow> int option" where
  "CountBytes [] totlen = Some totlen"
| "CountBytes (r # rs) totlen =
     (case int_add (size' r) 1 of
        None \<Rightarrow> None
      | Some n \<Rightarrow>
          (case int_add totlen n of
             None \<Rightarrow> None
           | Some totlen' \<Rightarrow> CountBytes rs totlen'))"

fun CopyRows :: "Row list \<Rightarrow> string \<Rightarrow> string option" where
  "CopyRows [] buf = Some buf"
| "CopyRows (r # rs) buf =
     (if size' r < 0 \<or> int (length (chars r)) < size' r then None
      else CopyRows rs (buf @ take (nat (size' r)) (chars r) @ [CHR 0x0A]))"

definition RowsToString :: "'a State_scheme \<Rightarrow> (string \<times> int) outcome" where
  "RowsToString st =
     (case CountBytes (row st) 0 of
        None \<Rightarrow> Undefined
      | Some buflen \<Rightarrow>
          (case int_add buflen 1 of
             None \<Rightarrow> Undefined
           | Some totlen \<Rightarrow>
               (case CopyRows (row st) [] of
                  None \<Rightarrow> Undefined
                | Some buf \<Rightarrow> Returns (buf, buflen))))"

subsection \<open>Keys\<close>

text \<open>
  \<open>ProcessKeyPressUnlocked\<close>. The case \<open>CTRL_Q\<close> is the one modelled; what the other
  keys do to the state is the parameter \<open>other_keys\<close>. The terminal reset that is
  written before \<open>exit(0)\<close> is not part of the state.
\<close>

definition quit_warning :: "int \<Rightarrow> string" where
  "quit_warning n = ''WARNING!!! File has unsaved changes. Press Ctrl-Q '' @ printf_d n
                      @ '' more times to quit.''"

definition ProcessKeyPressUnlocked ::
    "('a State_scheme \<Rightarrow> int \<Rightarrow> 'a State_scheme outcome) \<Rightarrow> int \<Rightarrow> 'a State_scheme \<Rightarrow> int
      \<Rightarrow> 'a State_scheme outcome" where
  "ProcessKeyPressUnlocked other_keys now st c =
     (if c = CTRL_Q then
        (if dirty st \<noteq> 0 \<and> quit_times st > 0 then
           Returns ((SetStatusMessage now st (quit_warning (quit_times st)))
                      \<lparr> quit_times := quit_times st - 1 \<rparr>)
         else Exit 0)
      else other_keys st c)"

text \<open>
  The main loop of ette.cc, \<open>while (1) { RefreshScreen(); ProcessKeyPress(...); }\<close>, on
  a finite run of keys, each with the time at which it is handled. It stops where the
  process exits.
\<close>

fun ProcessKeys ::
    "('a State_scheme \<Rightarrow> int \<Rightarrow> 'a State_scheme outcome) \<Rightarrow> 'a State_scheme \<Rightarrow> (int \<times> int) list
      \<Rightarrow> 'a State_scheme outcome" where
  "ProcessKeys other_keys st [] = Returns st"
| "ProcessKeys other_keys st ((now, c) # ks) =
     (case ProcessKeyPressUnlocked other_keys now st c of
        Exit n \<Rightarrow> Exit n
      | Undefined \<Rightarrow> Undefined
      | Returns st' \<Rightarrow> ProcessKeys other_keys st' ks)"

text \<open>A run of Ctrl-Q presses, one at each of the given moments.\<close>

definition CtrlQ_presses :: "int list \<Rightarrow> (int \<times> int) list" where
  "CtrlQ_presses moments = map (\<lambda>now. (now, CTRL_Q)) moments"

subsection \<open>Choice of the cipher\<close>

text \<open>
  \<open>std::string::find\<close> from position 0: the first index at which the pattern occurs,
  \<open>None\<close> for \<open>npos\<close>.
\<close>

fun string_find :: "string \<Rightarrow> string \<Rightarrow> nat option" where
  "string_find [] pat = (if pat = [] then Some 0 else None)"
| "string_find (c # cs) pat =
     (if prefix pat (c # cs) then Some 0 else map_option Suc (string_find cs pat))"

definition GetCryptoAlgorithmFromFilename :: "string \<Rightarrow> CryptoAlgorithm" where
  "GetCryptoAlgorithmFromFilename filename =
     (let aes256cbc = ''.aes256cbc'' in
      if string_find filename aes256cbc \<noteq> None then kAES256CBC else kDefaultNone)"

text \<open>
  \<open>HandleEncryption\<close>. \<open>FileExists\<close> asks the file system, and the two password
  dialogues read keys from the terminal until a password is accepted; they are the
  parameters \<open>file_exists\<close>, \<open>existing_file\<close> and \<open>new_file\<close>. A dialogue may never
  end (\<open>None\<close>) or leave the process on Ctrl-Q.
\<close>

definition HandleEncryption ::
    "(string \<Rightarrow> bool)
      \<Rightarrow> ('a State_scheme \<Rightarrow> string \<Rightarrow> int list \<Rightarrow> 'a State_scheme outcome option)
      \<Rightarrow> ('a State_scheme \<Rightarrow> int list \<Rightarrow> 'a State_scheme outcome option)
      \<Rightarrow> 'a State_scheme \<Rightarrow> string \<Rightarrow> int list \<Rightarrow> 'a State_scheme outcome option" where
  "HandleEncryption file_exists existing_file new_file st filename provided_keys =
     (let crypto_algorithm0 = GetCryptoAlgorithmFromFilename filename in
      if crypto_algorithm0 = kDefaultNone then Some (Returns st)
      else
        let st' = st \<lparr> crypto_algorithm := crypto_algorithm0 \<rparr> in
        if file_exists filename then existing_file st' filename provided_keys
        else new_file st' provided_keys)"

section \<open>The contract of the cryptographic libraries\<close>

text \<open>
  Modelled from the spec: what the container codec expects of the vendored libraries
  picosha2 and plusaes (the cryptographic primitive contract). The hash is a string of 64 hexadecimal
  characters. With a 32-byte key and a 16-byte IV, encryption with PKCS#7 padding
  fills a buffer of \<open>((n / 16) + 1) * 16\<close> bytes, and decrypting that buffer with the
  same key and IV into a buffer of \<open>n\<close> bytes gives the plaintext back.
\<close>

definition library_contract :: "Host \<Rightarrow> bool" where
  "library_contract H \<longleftrightarrow>
     (\<forall>raw. length (hash256_hex_string H raw) = 64) \<and>
     (\<forall>data key iv0. length key = 32 \<and> length iv0 = 16 \<longrightarrow>
        (\<exists>c. encrypt_cbc H data key iv0 ((length data div 16 + 1) * 16) = Inr c
             \<and> length c = (length data div 16 + 1) * 16
             \<and> decrypt_cbc H c key iv0 (length data) = Inr data))"

section \<open>A sample host and sample inputs\<close>

text \<open>
  To run the model on concrete inputs the parameters need values. The sample host is
  little-endian; its hash pads or cuts the password to 64 bytes; its cipher appends
  PKCS#7 padding and masks every byte with the first key byte, and its decryption
  undoes the mask, validates the padding and fills the output buffer; it has the
  memory for a vector and for a string of up to 1 GiB. It stands in for the host and the libraries
  only where a statement is evaluated.
\<close>

definition sample_hash :: "bytes \<Rightarrow> bytes" where
  "sample_hash raw = take 64 (raw @ replicate 64 0x30)"

definition sample_encrypt_cbc :: "bytes \<Rightarrow> bytes \<Rightarrow> bytes \<Rightarrow> nat \<Rightarrow> PlusaesError + bytes" where
  "sample_encrypt_cbc data key iv0 encrypted_size =
     (let k = 16 - length data mod 16 in
      if length key \<noteq> 32 then Inl kErrorInvalidKeySize
      else if length iv0 \<noteq> 16 then Inl kErrorInvalidIvSize
      else if encrypted_size < length data + k then Inl kErrorOther
      else Inr (map (\<lambda>b. b XOR hd key) (data @ replicate k (of_nat k))))"

definition sample_decrypt_cbc :: "bytes \<Rightarrow> bytes \<Rightarrow> bytes \<Rightarrow> nat \<Rightarrow> PlusaesError + bytes" where
  "sample_decrypt_cbc data key iv0 decrypted_size =
     (if length data mod 16 \<noteq> 0 then Inl kErrorOther
      else if length key \<noteq> 32 then Inl kErrorInvalidKeySize
      else if length iv0 \<noteq> 16 then Inl kErrorInvalidIvSize
      else if decrypted_size < length data - 16 then Inl kErrorOther
      else
        let clear = map (\<lambda>b. b XOR hd key) data;
            k = (if clear = [] then 0 else unat (last clear))
        in if k = 0 \<or> 16 < k \<or> drop (length clear - k) clear \<noteq> replicate k (of_nat k)
           then Inl kErrorInvalidKey
           else Inr (take decrypted_size (take (length clear - k) clear @ replicate decrypted_size 0)))"

definition SampleHost :: Host where
  "SampleHost = \<lparr> little_endian = True, hash256_hex_string = sample_hash,
                  encrypt_cbc = sample_encrypt_cbc, decrypt_cbc = sample_decrypt_cbc,
                  vector_allocates = (\<lambda>n. n \<le> 0x40000000),
                  string_allocates = (\<lambda>n. n \<le> 0x40000000) \<rparr>"

definition malformed :: bytes where
  "malformed = map of_char ''malformed''"

definition empty_container :: bytes where
  "empty_container =
     [0x45, 0x54, 0x54, 0x45, 0x31, 0x30, 0x30, 0x31, 0, 0, 0, 0, 0, 0, 0, 0,
        0xA0, 0xA1, 0xA2, 0xA3, 0xA4, 0xA5, 0xA6, 0xA7, 0xA8, 0xA9, 0xAA, 0xAB, 0xAC, 0xAD, 0xAE, 0,
        0x5A, 0x5A, 0x5A, 0x5A, 0x5A, 0x5A, 0x5A, 0x5A, 0x5A, 0x5A, 0x5A, 0x5A, 0x5A, 0x5A, 0x5A, 0x5A]"

text \<open>A frame of 48 bytes whose size field is \<open>2^64 - 1\<close>.\<close>

definition huge_size_container :: bytes where
  "huge_size_container =
     [0x45, 0x54, 0x54, 0x45, 0x31, 0x30, 0x30, 0x31,
      0xFF, 0xFF, 0xFF, 0xFF, 0xFF, 0xFF, 0xFF, 0xFF,
      0, 1, 2, 3, 4, 5, 6, 7, 8, 9, 10, 11, 12, 13, 14, 15,
      0x5A, 0x5A, 0x5A, 0x5A, 0x5A, 0x5A, 0x5A, 0x5A, 0x5A, 0x5A, 0x5A, 0x5A, 0x5A, 0x5A, 0x5A, 0x5A]"

definition sample_iv :: bytes where
  "sample_iv = [0x00, 0x01, 0x02, 0x03, 0x04, 0x05, 0x06, 0x07,
                0x08, 0x09, 0x0A, 0x0B, 0x0C, 0x0D, 0x0E, 0x0F]"

text \<open>
  The container that the sample host produces for the plaintext \<open>hello\<close>, the
  password \<open>foo\<close> and \<open>sample_iv\<close>, and the state \<open>EncryptAES256CBC\<close> returns with it.
\<close>

definition hello_container :: bytes where
  "hello_container =
     [0x45, 0x54, 0x54, 0x45, 0x31, 0x30, 0x30, 0x31, 0, 0, 0, 0, 0, 0, 0, 5,
      0, 1, 2, 3, 4, 5, 6, 7, 8, 9, 10, 11, 12, 13, 14, 0,
      14, 3, 10, 10, 9, 109, 109, 109, 109, 109, 109, 109, 109, 109, 109, 109]"

definition hello_state :: CryptoState where
  "hello_state =
     \<lparr> raw_key = map of_char ''foo'', hashed_key = HashRawKey SampleHost (map of_char ''foo''),
       plaintext = map of_char ''hello'', ciphertext = hello_container, iv = sample_iv,
       ciphertext_size = 16, plaintext_size = 5, algorithm = kAES256CBC,
       status = Some (Error kOk '''') \<rparr>"

text \<open>
  A row without tabs as \<open>UpdateRow\<close> leaves it, and the buffer of the three-line file
  of the editor tests after \<open>Open\<close>.
\<close>

definition plain_row :: "int \<Rightarrow> string \<Rightarrow> Row" where
  "plain_row i s = \<lparr> idx = i, size' = int (length s), chars = s, render = s,
                     hl = replicate (length s) HL_NORMAL, hl_oc = 0 \<rparr>"

definition three_rows :: State where
  "three_rows = \<lparr> row = [plain_row 0 ''first row'', plain_row 1 ''second row'',
                          plain_row 2 ''third row''],
                   dirty = 0, quit_times = 3, statusmsg = [], statusmsg_time = 0,
                   crypto_algorithm = kDefaultNone \<rparr>"

text \<open>
  Two rows of \<open>2^30\<close> bytes each, as \<open>Open\<close> builds them from a file of two such lines.
\<close>

definition two_big_rows :: State where
  "two_big_rows = \<lparr> row = [plain_row 0 (replicate 1073741824 (CHR ''a'')),
                            plain_row 1 (replicate 1073741824 (CHR ''b''))],
                     dirty = 0, quit_times = 3, statusmsg = [], statusmsg_time = 0,
                     crypto_algorithm = kDefaultNone \<rparr>"

text \<open>A buffer with unsaved changes and the quit counter as the editor starts with it.\<close>

definition dirty_buffer :: State where
  "dirty_buffer = \<lparr> row = [\<lparr> idx = 0, size' = 5, chars = ''hello'', render = ''hello'',
                               hl = replicate 5 HL_NORMAL, hl_oc = 0 \<rparr>],
                     dirty = 5, quit_times = 3, statusmsg = [], statusmsg_time = 0,
                     crypto_algorithm = kDefaultNone \<rparr>"

section \<open>Properties of the container codec\<close>

subsection \<open>The plaintext-size header\<close>

lemma and_0xFF_take_bit: "(x :: 64 word) AND 0xFF = take_bit 8 x"
proof -
  have "(0xFF :: 64 word) = mask 8"
    by (simp add: mask_eq_exp_minus_1)
  then show ?thesis
    by (simp add: take_bit_eq_mask)
qed

lemma byte_of_size_back:
  "(ucast (ucast (drop_bit k (n :: 64 word) AND 0xFF) :: byte) :: 64 word)
     = take_bit 8 (drop_bit k n)"
  unfolding and_0xFF_take_bit
  by (rule bit_word_eqI) (auto simp add: bit_simps)

lemma low_byte_of_size_back:
  "(ucast (ucast ((n :: 64 word) AND 0xFF) :: byte) :: 64 word) = take_bit 8 n"
  using byte_of_size_back [of 0 n] by simp

lemma bit_size_piece:
  "bit (push_bit k (take_bit 8 (drop_bit k (n :: 64 word)))) i
     \<longleftrightarrow> k \<le> i \<and> i < k + 8 \<and> bit n i"
  by (auto simp add: bit_simps dest: bit_imp_le_length)

lemma size_pieces:
  "push_bit 56 (take_bit 8 (drop_bit 56 n)) OR push_bit 48 (take_bit 8 (drop_bit 48 n)) OR
   push_bit 40 (take_bit 8 (drop_bit 40 n)) OR push_bit 32 (take_bit 8 (drop_bit 32 n)) OR
   push_bit 24 (take_bit 8 (drop_bit 24 n)) OR push_bit 16 (take_bit 8 (drop_bit 16 n)) OR
   push_bit 8 (take_bit 8 (drop_bit 8 n)) OR take_bit 8 n = (n :: 64 word)"
proof (rule bit_word_eqI)
  fix i
  assume i: "i < LENGTH(64)"
  have low: "bit (take_bit 8 n) i \<longleftrightarrow> i < 8 \<and> bit n i"
    by (simp add: bit_simps)
  have "i < 8 \<or> (8 \<le> i \<and> i < 16) \<or> (16 \<le> i \<and> i < 24) \<or> (24 \<le> i \<and> i < 32)
      \<or> (32 \<le> i \<and> i < 40) \<or> (40 \<le> i \<and> i < 48) \<or> (48 \<le> i \<and> i < 56)
      \<or> (56 \<le> i \<and> i < 64)"
    using i by simp arith
  then show "bit (push_bit 56 (take_bit 8 (drop_bit 56 n)) OR
      push_bit 48 (take_bit 8 (drop_bit 48 n)) OR push_bit 40 (take_bit 8 (drop_bit 40 n)) OR
      push_bit 32 (take_bit 8 (drop_bit 32 n)) OR push_bit 24 (take_bit 8 (drop_bit 24 n)) OR
      push_bit 16 (take_bit 8 (drop_bit 16 n)) OR push_bit 8 (take_bit 8 (drop_bit 8 n)) OR
      take_bit 8 n) i = bit n i"
    unfolding bit_or_iff bit_size_piece low by auto
qed

lemma size_header_roundtrip:
  "GetPlaintextSizeFromCiphertext le (ConstructPlaintextSizeHeaderForCiphertext le n @ rest) = n"
proof (cases le)
  case True
  then show ?thesis
    unfolding GetPlaintextSizeFromCiphertext_def ConstructPlaintextSizeHeaderForCiphertext_def
    by (simp add: byte_of_size_back low_byte_of_size_back size_pieces)
next
  case False
  then show ?thesis
    unfolding GetPlaintextSizeFromCiphertext_def ConstructPlaintextSizeHeaderForCiphertext_def
    by (simp add: byte_of_size_back low_byte_of_size_back size_pieces)
qed


subsection \<open>Decoding the frame\<close>

lemma kHeaderSize_32: "kHeaderSize = 32"
  by (simp add: kHeaderSize_def kHeaderMagicNumber_def kHeaderCryptoAlgorithmSize_def
      kHeaderVersionSize_def kHeaderPlaintextSize_def kHeaderIvSize_def)

lemma header_prefix_8:
  "length kHeaderMagicNumber + kHeaderCryptoAlgorithmSize + kHeaderVersionSize = 8"
  by (simp add: kHeaderMagicNumber_def kHeaderCryptoAlgorithmSize_def kHeaderVersionSize_def)

lemma Setup_ok:
  "32 \<le> length c \<Longrightarrow> k \<noteq> [] \<Longrightarrow>
     SetupCryptoStateFromCiphertextAES256CBC H c k a =
       \<lparr> raw_key = k, hashed_key = HashRawKey H k, plaintext = [],
         ciphertext = drop 32 c, iv = take 16 (drop 16 c),
         ciphertext_size = of_nat (length c - 32),
         plaintext_size = GetPlaintextSizeFromCiphertext (little_endian H) (drop 8 c),
         algorithm = a, status = Some (Error kOk '''') \<rparr>"
  unfolding SetupCryptoStateFromCiphertextAES256CBC_def header_prefix_8
  by (simp add: kHeaderSize_32 Let_def kHeaderPlaintextSize_def kHeaderIvSize_def)

lemma Decrypt_framed:
  "32 \<le> length c \<Longrightarrow> k \<noteq> [] \<Longrightarrow>
     DecryptAES256CBC H c k a =
       (let plaintext_size0 = GetPlaintextSizeFromCiphertext (little_endian H) (drop 8 c) in
        if plaintext_size0 = 0 then
          Some \<lparr> raw_key = k, hashed_key = HashRawKey H k, plaintext = [],
                 ciphertext = drop 32 c, iv = take 16 (drop 16 c),
                 ciphertext_size = of_nat (length c - 32), plaintext_size = 0,
                 algorithm = kAES256CBC, status = Some (Error kOk '''') \<rparr>
        else if vector_max_size < plaintext_size0
                \<or> \<not> vector_allocates H plaintext_size0 then None
        else
          case decrypt_cbc H (drop 32 c) (HashRawKey H k) ((take 16 (drop 16 c))[15 := 0])
                 (unat plaintext_size0) of
            Inl e \<Rightarrow> Some (CryptoStateOfPlusaesError e)
          | Inr decrypted \<Rightarrow>
              if \<not> string_allocates H plaintext_size0 then None
              else
                Some \<lparr> raw_key = k, hashed_key = HashRawKey H k, plaintext = decrypted,
                       ciphertext = drop 32 c, iv = take 16 (drop 16 c),
                       ciphertext_size = of_nat (length c - 32),
                       plaintext_size = plaintext_size0,
                       algorithm = kAES256CBC, status = Some (Error kOk '''') \<rparr>)"
  by (simp add: DecryptAES256CBC_def Setup_ok ok_def Let_def kHeaderIvSize_def split: sum.splits)

text \<open>
  \<^bold>\<open>C2.\<close> An input shorter than the 32-byte header is answered with
  \<open>kInvalidDataSize\<close> whatever the password is, the empty one included: the length
  is checked before the key, and \<open>Decrypt\<close> returns that state. The nine bytes of
  \<open>malformed\<close> are such an input.
\<close>

theorem Decrypt_short_input:
  "length c < 32 \<Longrightarrow>
     (\<exists>st. Decrypt H c k kAES256CBC = Some st
        \<and> status st = Some (Error kInvalidDataSize ''Ciphertext is too small to contain header'')
        \<and> \<not> ok (status st))"
  by (simp add: Decrypt_def DecryptAES256CBC_def SetupCryptoStateFromCiphertextAES256CBC_def
      kHeaderSize_32 CreateCryptoStateWithStatus_def CreateEmptyCryptoState_def ok_def)

theorem Decrypt_short_input_witness:
  "length malformed = 9 \<and> length malformed < 32
   \<and> (\<exists>st. Decrypt SampleHost malformed [] kAES256CBC = Some st
        \<and> status st = Some (Error kInvalidDataSize ''Ciphertext is too small to contain header'')
        \<and> \<not> ok (status st))
   \<and> (\<exists>st. Decrypt SampleHost malformed (map of_char ''bar'') kAES256CBC = Some st
        \<and> status st = Some (Error kInvalidDataSize ''Ciphertext is too small to contain header'')
        \<and> \<not> ok (status st))"
proof -
  have l: "length malformed < 32" by (simp add: malformed_def)
  show ?thesis
    using Decrypt_short_input [OF l, of SampleHost "[]"]
      Decrypt_short_input [OF l, of SampleHost "map of_char ''bar''"]
    by (simp add: malformed_def)
qed

text \<open>
  \<^bold>\<open>C10.\<close> A framed input of at least 32 bytes whose size field decodes to zero
  is accepted with any non-empty password: \<open>Decrypt\<close> returns, the status is Ok and
  the plaintext empty; the result depends neither on the cipher functions of the
  library nor on the memory of the host (the function returns before it allocates
  and before it would call the cipher); and \<open>IsKeyCorrect\<close> is true for a file with
  this content.
\<close>

theorem Decrypt_zero_plaintext_size:
  "32 \<le> length c \<Longrightarrow> GetPlaintextSizeFromCiphertext (little_endian H) (drop 8 c) = 0 \<Longrightarrow>
   k \<noteq> [] \<Longrightarrow>
     (\<exists>st. Decrypt H c k kAES256CBC = Some st \<and> ok (status st) \<and> plaintext st = [])
     \<and> Decrypt (H\<lparr>encrypt_cbc := e, decrypt_cbc := d, vector_allocates := v,
                   string_allocates := w\<rparr>) c k kAES256CBC
           = Decrypt H c k kAES256CBC
     \<and> (fs path = Some c \<longrightarrow> IsKeyCorrect H fs k path kAES256CBC = Some True)"
  by (simp add: Decrypt_def Decrypt_framed ok_def IsKeyCorrect_def ReadFileToString_def HashRawKey_def)

theorem Decrypt_zero_plaintext_size_witness:
  "32 \<le> length empty_container
   \<and> GetPlaintextSizeFromCiphertext (little_endian SampleHost) (drop 8 empty_container) = 0
   \<and> (\<exists>st. Decrypt SampleHost empty_container (map of_char ''foo'') kAES256CBC = Some st
        \<and> ok (status st) \<and> plaintext st = [])
   \<and> IsKeyCorrect SampleHost [''/tmp/empty.aes256cbc'' \<mapsto> empty_container]
        (map of_char ''foo'') ''/tmp/empty.aes256cbc'' kAES256CBC = Some True
   \<and> IsKeyCorrect SampleHost [''/tmp/empty.aes256cbc'' \<mapsto> empty_container]
        (map of_char ''bar'') ''/tmp/empty.aes256cbc'' kAES256CBC = Some True"
proof -
  have l: "32 \<le> length empty_container"
    by (simp add: empty_container_def)
  have z: "GetPlaintextSizeFromCiphertext (little_endian SampleHost) (drop 8 empty_container) = 0"
    by (simp add: empty_container_def GetPlaintextSizeFromCiphertext_def SampleHost_def)
  have foo: "map of_char ''foo'' \<noteq> ([] :: bytes)" and bar: "map of_char ''bar'' \<noteq> ([] :: bytes)"
    by simp_all
  show ?thesis
    using l z
      Decrypt_zero_plaintext_size [OF l z foo,
        where fs = "[''/tmp/empty.aes256cbc'' \<mapsto> empty_container]"
          and path = "''/tmp/empty.aes256cbc''"]
      Decrypt_zero_plaintext_size [OF l z bar,
        where fs = "[''/tmp/empty.aes256cbc'' \<mapsto> empty_container]"
          and path = "''/tmp/empty.aes256cbc''"]
    by simp
qed

subsection \<open>The copy loop of \<open>EncryptAES256CBC\<close>\<close>

lemma ucast_lt: "(ucast (i :: 32 word) :: 64 word) < n \<longleftrightarrow> unat i < unat n"
proof -
  have "unat i < 2 ^ 32"
    using unsigned_less [of i, where ?'a = nat] by simp
  then have "unat (ucast i :: 64 word) = unat i"
    by (simp add: unsigned_ucast_eq take_bit_nat_eq_self)
  then show ?thesis
    by (simp add: word_less_nat_alt)
qed

lemma unat_suc32: "unat (i :: 32 word) < m \<Longrightarrow> m < 2 ^ 32 \<Longrightarrow> unat (i + 1) = Suc (unat i)"
proof -
  assume "unat i < m" "m < 2 ^ 32"
  then have "unat i + unat (1 :: 32 word) < 2 ^ LENGTH(32)" by simp
  then show ?thesis by (simp add: unat_add_lem [THEN iffD1])
qed

lemma AppendCiphertext_Some:
  "AppendCiphertext i n src acc = Some r \<Longrightarrow>
     unat n < 2 ^ 32 \<and> r = acc @ drop (unat i) (take (unat n) src)"
proof (induction rule: AppendCiphertext.raw_induct [rotated 1, consumes 1])
  case (1 f i n src acc r)
  show ?case
  proof (cases "ucast i < n")
    case False
    with 1(2) have r: "r = acc" by simp
    from False have le: "unat n \<le> unat i" by (simp add: ucast_lt)
    have "unat i < 2 ^ 32" using unsigned_less [of i, where ?'a = nat] by simp
    with le r show ?thesis by simp
  next
    case True
    then have lt: "unat i < unat n" by (simp add: ucast_lt)
    from True 1(2) have inr: "unat i < length src"
      by (simp split: if_splits)
    with True 1(2) have "f (i + 1) n src (acc @ [src ! unat i]) = Some r" by simp
    from 1(1) [OF this] have n: "unat n < 2 ^ 32"
      and r: "r = (acc @ [src ! unat i]) @ drop (unat (i + 1)) (take (unat n) src)" by simp_all
    have s: "unat (i + 1) = Suc (unat i)" using lt n by (rule unat_suc32)
    have "drop (unat i) (take (unat n) src) = (src ! unat i) # drop (Suc (unat i)) (take (unat n) src)"
      using lt inr by (simp add: Cons_nth_drop_Suc [symmetric])
    with n r s show ?thesis by simp
  qed
qed

lemma AppendCiphertext_terminates:
  "unat n < 2 ^ 32 \<Longrightarrow> unat n \<le> length src \<Longrightarrow> unat i \<le> unat n \<Longrightarrow>
     AppendCiphertext i n src acc = Some (acc @ drop (unat i) (take (unat n) src))"
proof (induction "unat n - unat i" arbitrary: i acc)
  case 0
  then have "\<not> ucast i < n" by (simp add: ucast_lt)
  with 0 show ?case by (subst AppendCiphertext.simps) simp
next
  case (Suc k)
  then have lt: "unat i < unat n" by simp
  then have c: "ucast i < n" by (simp add: ucast_lt)
  have s: "unat (i + 1) = Suc (unat i)" using lt Suc.prems(1) by (rule unat_suc32)
  have inr: "unat i < length src" using lt Suc.prems(2) by simp
  have "AppendCiphertext (i + 1) n src (acc @ [src ! unat i])
      = Some ((acc @ [src ! unat i]) @ drop (unat (i + 1)) (take (unat n) src))"
    using Suc.hyps(2) Suc.prems lt s by (intro Suc.hyps(1)) simp_all
  moreover have "drop (unat i) (take (unat n) src) = (src ! unat i) # drop (Suc (unat i)) (take (unat n) src)"
    using lt inr by (simp add: Cons_nth_drop_Suc [symmetric])
  ultimately show ?case using c inr s by (subst AppendCiphertext.simps) simp
qed

lemma AppendCiphertext_diverges:
  "2 ^ 32 \<le> unat n \<Longrightarrow> AppendCiphertext i n src acc = None"
proof (cases "AppendCiphertext i n src acc")
  case None
  then show ?thesis .
next
  case (Some r)
  assume "2 ^ 32 \<le> unat n"
  with AppendCiphertext_Some [OF Some] show ?thesis by simp
qed

subsection \<open>What \<open>EncryptAES256CBC\<close> returns\<close>

lemma Encrypt_Some_ok:
  assumes "EncryptAES256CBC H p k iv0 = Some st" and "ok (status st)" and "16 \<le> length iv0"
  shows "\<exists>c. encrypt_cbc H p (take 32 (HashRawKey H k)) ((take 16 iv0)[15 := 0])
              (unat (get_padded_encrypted_size (of_nat (length p)))) = Inr c
           \<and> st = \<lparr> raw_key = k, hashed_key = HashRawKey H k, plaintext = p,
                    ciphertext = kHeaderMagicNumber @ [0x31, 0x30, 0x30, 0x31]
                      @ ConstructPlaintextSizeHeaderForCiphertext (little_endian H) (of_nat (length p))
                      @ (take 16 iv0)[15 := 0]
                      @ take (unat (get_padded_encrypted_size (of_nat (length p)))) c,
                    iv = iv0,
                    ciphertext_size = get_padded_encrypted_size (of_nat (length p)),
                    plaintext_size = of_nat (length p), algorithm = kAES256CBC,
                    status = Some (Error kOk '''') \<rparr>"
proof -
  have k: "k \<noteq> []"
    using assms(1,2)
    by (auto simp add: EncryptAES256CBC_def CreateCryptoStateWithStatus_def
        CreateEmptyCryptoState_def ok_def)
  have iv: "NullTerminatedIv iv0 = Some ((take 16 iv0)[15 := 0])"
    using assms(3) by (simp add: NullTerminatedIv_def kHeaderIvSize_def)
  have e: "\<not> ok (status (CryptoStateOfPlusaesError e))" for e
    by (cases e) (simp_all add: CryptoStateOfPlusaesError_def CreateCryptoStateWithStatus_def
        CreateEmptyCryptoState_def ok_def)
  from assms(1,2) k iv e show ?thesis
    by (auto simp add: EncryptAES256CBC_def Let_def to_string_digit_def kVersionMajor_def
        kVersionMinor_def kVersionPatch_def
        split: if_splits sum.splits option.splits dest!: AppendCiphertext_Some)
qed

lemma Encrypt_hello:
  "EncryptAES256CBC SampleHost (map of_char ''hello'') (map of_char ''foo'') sample_iv
     = Some hello_state"
  by code_simp

text \<open>
  \<^bold>\<open>C9.\<close> Whenever \<open>EncryptAES256CBC\<close> returns an Ok state for a 16-byte IV, the
  cipher was called with the IV whose last byte is replaced by zero, that IV is what
  the container holds at offsets 16..31 (so byte 31 is zero), and the \<open>iv\<close> field of
  the state is the IV as it was passed in. \<open>DecryptAES256CBC\<close>, on a framed input with
  a non-zero size field, either fails to allocate the output buffer and returns
  nothing, or calls the cipher with the header's IV after the same replacement (and
  returns its error, or the plaintext if the host can hold the copy).
\<close>

theorem iv_last_byte_zeroed:
  "(EncryptAES256CBC H p k iv0 = Some st \<and> ok (status st) \<and> length iv0 = 16 \<longrightarrow>
      (\<exists>c. encrypt_cbc H p (take 32 (HashRawKey H k)) (iv0[15 := 0])
              (unat (get_padded_encrypted_size (of_nat (length p)))) = Inr c
           \<and> drop 32 (ciphertext st)
               = take (unat (get_padded_encrypted_size (of_nat (length p)))) c)
      \<and> take 16 (drop 16 (ciphertext st)) = iv0[15 := 0]
      \<and> ciphertext st ! 31 = 0
      \<and> iv st = iv0)
   \<and> (32 \<le> length d \<and> k' \<noteq> []
        \<and> GetPlaintextSizeFromCiphertext (little_endian H) (drop 8 d) \<noteq> 0 \<longrightarrow>
      DecryptAES256CBC H d k' a =
        (if vector_max_size < GetPlaintextSizeFromCiphertext (little_endian H) (drop 8 d)
            \<or> \<not> vector_allocates H
                   (GetPlaintextSizeFromCiphertext (little_endian H) (drop 8 d))
         then None
         else
           case decrypt_cbc H (drop 32 d) (HashRawKey H k') ((take 16 (drop 16 d))[15 := 0])
                  (unat (GetPlaintextSizeFromCiphertext (little_endian H) (drop 8 d))) of
             Inl e \<Rightarrow> Some (CryptoStateOfPlusaesError e)
           | Inr decrypted \<Rightarrow>
               if \<not> string_allocates H
                      (GetPlaintextSizeFromCiphertext (little_endian H) (drop 8 d))
               then None
               else
                 Some \<lparr> raw_key = k', hashed_key = HashRawKey H k', plaintext = decrypted,
                        ciphertext = drop 32 d, iv = take 16 (drop 16 d),
                        ciphertext_size = of_nat (length d - 32),
                        plaintext_size =
                          GetPlaintextSizeFromCiphertext (little_endian H) (drop 8 d),
                        algorithm = kAES256CBC, status = Some (Error kOk '''') \<rparr>))"
proof (intro conjI impI)
  assume a: "EncryptAES256CBC H p k iv0 = Some st \<and> ok (status st) \<and> length iv0 = 16"
  then have l: "length iv0 = 16" and l': "16 \<le> length iv0" by simp_all
  from a l' obtain c where
    c: "encrypt_cbc H p (take 32 (HashRawKey H k)) ((take 16 iv0)[15 := 0])
          (unat (get_padded_encrypted_size (of_nat (length p)))) = Inr c"
    and st: "st = \<lparr> raw_key = k, hashed_key = HashRawKey H k, plaintext = p,
                    ciphertext = kHeaderMagicNumber @ [0x31, 0x30, 0x30, 0x31]
                      @ ConstructPlaintextSizeHeaderForCiphertext (little_endian H) (of_nat (length p))
                      @ (take 16 iv0)[15 := 0]
                      @ take (unat (get_padded_encrypted_size (of_nat (length p)))) c,
                    iv = iv0,
                    ciphertext_size = get_padded_encrypted_size (of_nat (length p)),
                    plaintext_size = of_nat (length p), algorithm = kAES256CBC,
                    status = Some (Error kOk '''') \<rparr>"
    using Encrypt_Some_ok [of H p k iv0 st] by blast
  define front where "front = kHeaderMagicNumber @ [0x31, 0x30, 0x30, 0x31]
      @ ConstructPlaintextSizeHeaderForCiphertext (little_endian H) (of_nat (length p))"
  define body where "body = take (unat (get_padded_encrypted_size (of_nat (length p)))) c"
  have front: "length front = 16"
    by (simp add: front_def kHeaderMagicNumber_def ConstructPlaintextSizeHeaderForCiphertext_def)
  have t: "take 16 iv0 = iv0" using l by simp
  have cs: "ciphertext st = front @ iv0[15 := 0] @ body"
    using st t by (simp add: front_def body_def)
  show "\<exists>c. encrypt_cbc H p (take 32 (HashRawKey H k)) (iv0[15 := 0])
              (unat (get_padded_encrypted_size (of_nat (length p)))) = Inr c
           \<and> drop 32 (ciphertext st)
               = take (unat (get_padded_encrypted_size (of_nat (length p)))) c"
    using c t cs front l by (simp add: body_def)
  show "take 16 (drop 16 (ciphertext st)) = iv0[15 := 0]"
    using cs front l by simp
  show "iv st = iv0" using st by simp
  have "ciphertext st ! 31 = (iv0[15 := 0]) ! 15"
    using cs front l by (simp add: nth_append)
  then show "ciphertext st ! 31 = 0" using l by simp
next
  assume "32 \<le> length d \<and> k' \<noteq> []
        \<and> GetPlaintextSizeFromCiphertext (little_endian H) (drop 8 d) \<noteq> 0"
  then show "DecryptAES256CBC H d k' a =
        (if vector_max_size < GetPlaintextSizeFromCiphertext (little_endian H) (drop 8 d)
            \<or> \<not> vector_allocates H
                   (GetPlaintextSizeFromCiphertext (little_endian H) (drop 8 d))
         then None
         else
           case decrypt_cbc H (drop 32 d) (HashRawKey H k') ((take 16 (drop 16 d))[15 := 0])
                  (unat (GetPlaintextSizeFromCiphertext (little_endian H) (drop 8 d))) of
             Inl e \<Rightarrow> Some (CryptoStateOfPlusaesError e)
           | Inr decrypted \<Rightarrow>
               if \<not> string_allocates H
                      (GetPlaintextSizeFromCiphertext (little_endian H) (drop 8 d))
               then None
               else
                 Some \<lparr> raw_key = k', hashed_key = HashRawKey H k', plaintext = decrypted,
                        ciphertext = drop 32 d, iv = take 16 (drop 16 d),
                        ciphertext_size = of_nat (length d - 32),
                        plaintext_size =
                          GetPlaintextSizeFromCiphertext (little_endian H) (drop 8 d),
                        algorithm = kAES256CBC, status = Some (Error kOk '''') \<rparr>)"
    by (simp add: Decrypt_framed Let_def)
qed

subsection \<open>Plaintexts of 4 GiB and more\<close>

lemma unat_padded_size:
  assumes "n < 2 ^ 64 - 16"
  shows "unat (get_padded_encrypted_size (of_nat n)) = (n div 16 + 1) * 16"
proof -
  have n: "unat (of_nat n :: 64 word) = n"
    using assms by (simp add: unat_of_nat)
  have d: "unat ((of_nat n :: 64 word) div 16) = n div 16"
    by (simp add: unat_div n)
  have "unat ((of_nat n :: 64 word) div 16) + unat (1 :: 64 word) < 2 ^ LENGTH(64)"
    using assms d by simp
  then have s: "unat ((of_nat n :: 64 word) div 16 + 1) = n div 16 + 1"
    using d by (simp add: unat_add_lem [THEN iffD1])
  have "unat ((of_nat n :: 64 word) div 16 + 1) * unat (16 :: 64 word) < 2 ^ LENGTH(64)"
    using assms s by simp
  then have "unat (((of_nat n :: 64 word) div 16 + 1) * 16)
      = unat ((of_nat n :: 64 word) div 16 + 1) * unat (16 :: 64 word)"
    by (rule unat_mult_lem [THEN iffD1])
  then show ?thesis
    unfolding get_padded_encrypted_size_def s by simp
qed

lemma Encrypt_large_plaintext:
  assumes "2 ^ 32 - 16 \<le> length p" and "length p < 2 ^ 64 - 16"
    and "EncryptAES256CBC H p k iv0 = Some st"
  shows "\<not> ok (status st)"
proof
  assume o: "ok (status st)"
  have k: "k \<noteq> []"
    using assms(3) o
    by (auto simp add: EncryptAES256CBC_def CreateCryptoStateWithStatus_def
        CreateEmptyCryptoState_def ok_def)
  have e: "\<not> ok (status (CryptoStateOfPlusaesError e))" for e
    by (cases e) (simp_all add: CryptoStateOfPlusaesError_def CreateCryptoStateWithStatus_def
        CreateEmptyCryptoState_def ok_def)
  have "2 ^ 32 \<le> unat (get_padded_encrypted_size (of_nat (length p)))"
    using assms(1,2) by (simp add: unat_padded_size)
  then have "AppendCiphertext i (get_padded_encrypted_size (of_nat (length p))) src acc = None"
    for i src acc
    by (rule AppendCiphertext_diverges)
  with assms(3) o k e show False
    by (auto simp add: EncryptAES256CBC_def Let_def split: if_splits sum.splits option.splits)
qed

text \<open>
  \<^bold>\<open>C1.\<close> For a plaintext of \<open>2^32 - 16\<close> bytes the padded size is \<open>2^32\<close>, the
  32-bit counter of the copy loop never reaches it, and \<open>EncryptAES256CBC\<close> returns
  nothing: on the sample host the result is \<open>None\<close>, and on no host is it an Ok state.
  There is then no container to decrypt.
\<close>

theorem Encrypt_4GiB_plaintext_no_result:
  "EncryptAES256CBC SampleHost (replicate 4294967280 0) (map of_char ''foo'') sample_iv = None
   \<and> (\<nexists>H st. EncryptAES256CBC H (replicate 4294967280 0) (map of_char ''foo'') sample_iv = Some st
               \<and> ok (status st))"
proof
  have "(2::nat) ^ 32 \<le> unat (get_padded_encrypted_size (of_nat (length (replicate 4294967280 (0::byte)))))"
    by (simp add: get_padded_encrypted_size_def)
  then have d: "AppendCiphertext i (get_padded_encrypted_size (of_nat (length (replicate 4294967280 (0::byte))))) src acc = None"
    for i src acc
    by (rule AppendCiphertext_diverges)
  show "EncryptAES256CBC SampleHost (replicate 4294967280 0) (map of_char ''foo'') sample_iv = None"
    unfolding EncryptAES256CBC_def Let_def d
    by (simp add: SampleHost_def HashRawKey_def sample_hash_def NullTerminatedIv_def
        kHeaderIvSize_def sample_iv_def sample_encrypt_cbc_def get_padded_encrypted_size_def)
  show "\<nexists>H st. EncryptAES256CBC H (replicate 4294967280 0) (map of_char ''foo'') sample_iv = Some st
               \<and> ok (status st)"
    using Encrypt_large_plaintext [of "replicate 4294967280 0"] by auto
qed

subsection \<open>The round trip below 4 GiB\<close>

text \<open>
  Under the contract of the libraries, and for a plaintext whose padded size stays
  below \<open>2^32\<close>, encryption returns an Ok state and decrypting its container with the
  same password gives the plaintext back, provided the host has the memory for the
  output buffer. The sample host meets the contract.
\<close>

lemma Encrypt_returns:
  assumes k: "k \<noteq> []" and iv: "length iv0 = 16"
    and h: "length (hash256_hex_string H k) = 64"
    and p: "length p < 2 ^ 32 - 16"
    and c: "encrypt_cbc H p (HashRawKey H k) (iv0[15 := 0]) ((length p div 16 + 1) * 16) = Inr c"
    and lc: "length c = (length p div 16 + 1) * 16"
  shows "EncryptAES256CBC H p k iv0 =
     Some \<lparr> raw_key = k, hashed_key = HashRawKey H k, plaintext = p,
            ciphertext = kHeaderMagicNumber @ [0x31, 0x30, 0x30, 0x31]
              @ ConstructPlaintextSizeHeaderForCiphertext (little_endian H) (of_nat (length p))
              @ iv0[15 := 0] @ c,
            iv = iv0,
            ciphertext_size = get_padded_encrypted_size (of_nat (length p)),
            plaintext_size = of_nat (length p), algorithm = kAES256CBC,
            status = Some (Error kOk '''') \<rparr>"
proof -
  have u: "unat (get_padded_encrypted_size (of_nat (length p))) = (length p div 16 + 1) * 16"
    using p by (intro unat_padded_size) simp
  have b: "unat (get_padded_encrypted_size (of_nat (length p))) < 2 ^ 32"
    unfolding u using p by simp
  have key: "length (HashRawKey H k) = 32" "take 32 (HashRawKey H k) = HashRawKey H k"
    using h by (simp_all add: HashRawKey_def)
  have n: "NullTerminatedIv iv0 = Some (iv0[15 := 0])"
    using iv by (simp add: NullTerminatedIv_def kHeaderIvSize_def)
  have a: "AppendCiphertext 0 (get_padded_encrypted_size (of_nat (length p))) c acc = Some (acc @ c)"
    for acc
    using AppendCiphertext_terminates [of "get_padded_encrypted_size (of_nat (length p))" c 0 acc]
      b u lc by simp
  have c': "encrypt_cbc H p (take 32 (HashRawKey H k)) (iv0[15 := 0])
      (unat (get_padded_encrypted_size (of_nat (length p)))) = Inr c"
    using c key u by simp
  have l32: "\<not> length (HashRawKey H k) < 32" using key by simp
  show ?thesis
    unfolding EncryptAES256CBC_def Let_def
    by (simp only: k n c' a l32 if_False option.case sum.case to_string_digit_def
        kVersionMajor_def kVersionMinor_def kVersionPatch_def) simp
qed



lemma Encrypt_Decrypt_roundtrip:
  assumes L: "library_contract H" and k: "k \<noteq> []" and iv: "length iv0 = 16"
    and p: "length p < 2 ^ 32 - 16" and m: "vector_allocates H (of_nat (length p))"
    and ms: "string_allocates H (of_nat (length p))"
  shows "\<exists>st. Encrypt H p k iv0 kAES256CBC = Some st \<and> ok (status st)
           \<and> (\<exists>st'. Decrypt H (ciphertext st) k kAES256CBC = Some st'
                  \<and> ok (status st') \<and> plaintext st' = p)"
proof -
  have h: "length (hash256_hex_string H k) = 64"
    using L by (simp add: library_contract_def)
  then have key: "length (HashRawKey H k) = 32"
    by (simp add: HashRawKey_def)
  have iv': "length (iv0[15 := 0]) = 16" using iv by simp
  from L key iv' obtain c where
    c: "encrypt_cbc H p (HashRawKey H k) (iv0[15 := 0]) ((length p div 16 + 1) * 16) = Inr c"
    and lc: "length c = (length p div 16 + 1) * 16"
    and d: "decrypt_cbc H c (HashRawKey H k) (iv0[15 := 0]) (length p) = Inr p"
    unfolding library_contract_def by blast
  define front where "front = kHeaderMagicNumber @ [0x31, 0x30, 0x30, 0x31 :: byte]"
  define sz where "sz = ConstructPlaintextSizeHeaderForCiphertext (little_endian H) (of_nat (length p))"
  define ct where "ct = front @ sz @ iv0[15 := 0] @ c"
  define st where "st = \<lparr> raw_key = k, hashed_key = HashRawKey H k, plaintext = p,
            ciphertext = ct, iv = iv0,
            ciphertext_size = get_padded_encrypted_size (of_nat (length p)),
            plaintext_size = of_nat (length p), algorithm = kAES256CBC,
            status = Some (Error kOk '''') \<rparr>"
  have enc: "Encrypt H p k iv0 kAES256CBC = Some st"
    using Encrypt_returns [OF k iv h p c lc]
    by (simp add: Encrypt_def st_def ct_def front_def sz_def)
  have lf: "length front = 8" by (simp add: front_def kHeaderMagicNumber_def)
  have ls: "length sz = 8" by (simp add: sz_def ConstructPlaintextSizeHeaderForCiphertext_def)
  have len: "32 \<le> length ct" using lf ls iv' by (simp add: ct_def)
  have d8: "drop 8 ct = sz @ iv0[15 := 0] @ c" using lf by (simp add: ct_def)
  have d16: "take 16 (drop 16 ct) = iv0[15 := 0]" using lf ls iv' by (simp add: ct_def)
  have d32: "drop 32 ct = c" using lf ls iv' by (simp add: ct_def)
  have size: "GetPlaintextSizeFromCiphertext (little_endian H) (drop 8 ct) = of_nat (length p)"
    unfolding d8 sz_def by (rule size_header_roundtrip)
  have un: "unat (of_nat (length p) :: 64 word) = length p"
    using p by (simp add: unat_of_nat)
  have z: "(of_nat (length p) :: 64 word) = 0 \<longleftrightarrow> p = []"
proof
    assume "(of_nat (length p) :: 64 word) = 0"
    then have "unat (of_nat (length p) :: 64 word) = 0" by simp
    with un show "p = []" by simp
  next
    assume "p = []"
    then show "(of_nat (length p) :: 64 word) = 0" by simp
  qed
  have idem: "(iv0[15 := 0])[15 := 0] = iv0[15 := (0::byte)]" by simp
  have mx: "\<not> vector_max_size < (of_nat (length p) :: 64 word)"
    using p by (simp add: vector_max_size_def word_less_nat_alt un)
  have dec: "\<exists>st'. Decrypt H ct k kAES256CBC = Some st' \<and> ok (status st') \<and> plaintext st' = p"
  proof (cases "p = []")
    case True
    with z have "GetPlaintextSizeFromCiphertext (little_endian H) (drop 8 ct) = 0"
      using size by simp
    with True show ?thesis
      by (simp add: Decrypt_def Decrypt_framed [OF len k] ok_def)
  next
    case False
    with z have nz: "GetPlaintextSizeFromCiphertext (little_endian H) (drop 8 ct) \<noteq> 0"
      using size by simp
    have "decrypt_cbc H (drop 32 ct) (HashRawKey H k) ((take 16 (drop 16 ct))[15 := 0])
        (unat (GetPlaintextSizeFromCiphertext (little_endian H) (drop 8 ct))) = Inr p"
      unfolding d32 d16 idem size un by (rule d)
    with nz m ms mx show ?thesis
      by (simp add: Decrypt_def Decrypt_framed [OF len k] ok_def size un)
  qed
  from enc dec show ?thesis
    by (intro exI [of _ st]) (simp add: st_def ok_def)
qed

lemma xor_mask_twice: "map (\<lambda>b. b XOR m) (map (\<lambda>b. b XOR m) xs) = (xs :: bytes)"
  by (induction xs) (simp_all add: xor.assoc)

lemma SampleHost_contract: "library_contract SampleHost"
  unfolding library_contract_def
proof (intro conjI allI impI)
  fix raw :: bytes
  show "length (hash256_hex_string SampleHost raw) = 64"
    by (simp add: SampleHost_def sample_hash_def)
next
  fix data key iv0 :: bytes
  assume a: "length key = 32 \<and> length iv0 = 16"
  define k where "k = 16 - length data mod 16"
  define c where "c = map (\<lambda>b. b XOR hd key) (data @ replicate k (of_nat k))"
  have k: "0 < k" "k \<le> 16" by (simp_all add: k_def)
  have lc: "length c = (length data div 16 + 1) * 16"
    unfolding c_def k_def by simp presburger
  have lk: "length data + k = (length data div 16 + 1) * 16"
    unfolding k_def by presburger
  have enc: "encrypt_cbc SampleHost data key iv0 ((length data div 16 + 1) * 16) = Inr c"
    using a lk by (simp add: SampleHost_def sample_encrypt_cbc_def Let_def c_def k_def)
  have clear: "map (\<lambda>b. b XOR hd key) c = data @ replicate k (of_nat k)"
    unfolding c_def by (rule xor_mask_twice)
  have ne: "data @ replicate k (of_nat k :: byte) \<noteq> []" using k by simp
  have la: "last (data @ replicate k (of_nat k :: byte)) = of_nat k" using k by simp
  have un: "unat (of_nat k :: byte) = k" using k by (simp add: unat_of_nat)
  have m: "length c mod 16 = 0" unfolding lc by simp
  have dec: "decrypt_cbc SampleHost c key iv0 (length data) = Inr data"
    using a k m
    by (simp add: SampleHost_def sample_decrypt_cbc_def Let_def clear la un lc)
  from enc lc dec
  show "\<exists>c. encrypt_cbc SampleHost data key iv0 ((length data div 16 + 1) * 16) = Inr c
           \<and> length c = (length data div 16 + 1) * 16
           \<and> decrypt_cbc SampleHost c key iv0 (length data) = Inr data"
    by blast
qed

lemma Encrypt_Decrypt_roundtrip_witness:
  "\<exists>st. Encrypt SampleHost (map of_char ''hello'') (map of_char ''foo'') sample_iv kAES256CBC = Some st
        \<and> ok (status st)
        \<and> (\<exists>st'. Decrypt SampleHost (ciphertext st) (map of_char ''foo'') kAES256CBC = Some st'
               \<and> ok (status st') \<and> plaintext st' = map of_char ''hello'')"
  using Encrypt_Decrypt_roundtrip [OF SampleHost_contract, of "map of_char ''foo''" sample_iv
      "map of_char ''hello''"]
  by (simp add: sample_iv_def SampleHost_def)

subsection \<open>The sample container\<close>

lemma Decrypt_hello:
  "32 \<le> length hello_container
   \<and> GetPlaintextSizeFromCiphertext (little_endian SampleHost) (drop 8 hello_container) \<noteq> 0
   \<and> DecryptAES256CBC SampleHost hello_container (map of_char ''foo'') kAES256CBC
      = Some \<lparr> raw_key = map of_char ''foo'', hashed_key = HashRawKey SampleHost (map of_char ''foo''),
         plaintext = map of_char ''hello'', ciphertext = drop 32 hello_container,
         iv = take 16 (drop 16 hello_container), ciphertext_size = 16, plaintext_size = 5,
         algorithm = kAES256CBC, status = Some (Error kOk '''') \<rparr>"
  by code_simp

lemma Decrypt_huge_size:
  "32 \<le> length huge_size_container
   \<and> GetPlaintextSizeFromCiphertext (little_endian SampleHost) (drop 8 huge_size_container) \<noteq> 0
   \<and> DecryptAES256CBC SampleHost huge_size_container (map of_char ''foo'') kAES256CBC = None"
  by code_simp

theorem iv_last_byte_zeroed_witness:
  "EncryptAES256CBC SampleHost (map of_char ''hello'') (map of_char ''foo'') sample_iv
     = Some hello_state
   \<and> ok (status hello_state) \<and> length sample_iv = 16
   \<and> take 16 (drop 16 (ciphertext hello_state)) = sample_iv[15 := 0]
   \<and> ciphertext hello_state ! 31 = 0
   \<and> iv hello_state = sample_iv \<and> sample_iv ! 15 = 0x0F
   \<and> 32 \<le> length hello_container
   \<and> GetPlaintextSizeFromCiphertext (little_endian SampleHost) (drop 8 hello_container) \<noteq> 0
   \<and> decrypt_cbc SampleHost (drop 32 hello_container)
        (HashRawKey SampleHost (map of_char ''foo''))
        ((take 16 (drop 16 hello_container))[15 := 0]) 5 = Inr (map of_char ''hello'')
   \<and> (\<exists>st'. DecryptAES256CBC SampleHost hello_container (map of_char ''foo'') kAES256CBC
               = Some st' \<and> plaintext st' = map of_char ''hello'')
   \<and> 32 \<le> length huge_size_container
   \<and> GetPlaintextSizeFromCiphertext (little_endian SampleHost) (drop 8 huge_size_container) \<noteq> 0
   \<and> DecryptAES256CBC SampleHost huge_size_container (map of_char ''foo'') kAES256CBC = None"
proof -
  have o: "ok (status hello_state)" by (simp add: hello_state_def ok_def)
  have l: "length sample_iv = 16" by (simp add: sample_iv_def)
  have f: "map of_char ''foo'' \<noteq> ([] :: bytes)" by simp
  have d: "decrypt_cbc SampleHost (drop 32 hello_container)
        (HashRawKey SampleHost (map of_char ''foo''))
        ((take 16 (drop 16 hello_container))[15 := 0]) 5 = Inr (map of_char ''hello'')"
    by code_simp
  have s: "sample_iv ! 15 = 0x0F" by (simp add: sample_iv_def)
  show ?thesis
    using iv_last_byte_zeroed [of SampleHost "map of_char ''hello''" "map of_char ''foo''"
        sample_iv hello_state hello_container "map of_char ''foo''" kAES256CBC]
      iv_last_byte_zeroed [of SampleHost "map of_char ''hello''" "map of_char ''foo''"
        sample_iv hello_state huge_size_container "map of_char ''foo''" kAES256CBC]
      Encrypt_hello Decrypt_hello Decrypt_huge_size o l f d s
    by simp
qed

section \<open>Properties of the row store\<close>

subsection \<open>Rendering a row\<close>

lemma RenderChars_no_tab:
  "TAB \<notin> set cs \<Longrightarrow> int (length r + length cs) \<le> INT_MAX \<Longrightarrow>
     RenderChars cs r = Some (r @ cs)"
proof (induction cs arbitrary: r)
  case Nil
  then show ?case by simp
next
  case (Cons c cs)
  from Cons.prems have "\<not> INT_MAX \<le> int (length r)" and "c \<noteq> TAB"
    by auto
  moreover have "RenderChars cs (r @ [c]) = Some ((r @ [c]) @ cs)"
    using Cons.prems by (intro Cons.IH) simp_all
  ultimately show ?case by simp
qed

lemma RenderChars_tab: "RenderChars [CHR ''a'', TAB, CHR ''b''] [] = Some ''a      b''"
  by code_simp

text \<open>
  A row of fewer than \<open>2^31\<close> bytes without tabs is rendered as it is: what
  \<open>InsertRow\<close> passes to \<open>UpdateRow\<close> comes back as \<open>plain_row\<close>.
\<close>

lemma UpdateRow_plain:
  assumes "TAB \<notin> set s" and "int (length s) \<le> INT_MAX"
  shows "UpdateRow \<lparr> idx = i, size' = int_of_size_t (length s), chars = s,
                     render = [], hl = [], hl_oc = 0 \<rparr>
           = Returns (plain_row i s)"
proof -
  have sz: "int_of_size_t (length s) = int (length s)"
    using assms(2) by (simp add: int_of_size_t_def INT_MAX_def Let_def)
  have tabs: "filter (\<lambda>c. c = TAB) s = []"
    using assms(1) by (induction s) auto
  have r: "RenderChars s [] = Some s"
    using RenderChars_no_tab [of s "[]"] assms by simp
  have m: "int (length s) mod 18446744073709551616 = int (length s)"
    using assms(2) by (simp add: INT_MAX_def)
  show ?thesis
    using assms(2)
    by (simp add: UpdateRow_def sz tabs r m UpdateSyntax_def plain_row_def Let_def
        UINT32_MAX_def INT_MAX_def)
qed

subsection \<open>Serialising the rows\<close>

lemma CopyRows_concat:
  "\<forall>r \<in> set rs. size' r = int (length (chars r)) \<Longrightarrow>
     CopyRows rs buf = Some (buf @ concat (map (\<lambda>r. chars r @ [CHR 0x0A]) rs))"
  by (induction rs arbitrary: buf) simp_all

lemma CountBytes_sum:
  "\<forall>r \<in> set rs. 0 \<le> size' r \<Longrightarrow> 0 \<le> totlen \<Longrightarrow>
   totlen + sum_list (map (\<lambda>r. size' r + 1) rs) \<le> INT_MAX \<Longrightarrow>
     CountBytes rs totlen = Some (totlen + sum_list (map (\<lambda>r. size' r + 1) rs))"
proof (induction rs arbitrary: totlen)
  case Nil
  then show ?case by simp
next
  case (Cons r rs)
  have nn: "0 \<le> sum_list (map (\<lambda>r. size' r + 1) rs)"
    using Cons.prems(1) by (intro sum_list_nonneg) auto
  have r0: "0 \<le> size' r" using Cons.prems(1) by simp
  have a1: "int_add (size' r) 1 = Some (size' r + 1)"
    using Cons.prems(2,3) nn r0 by (simp add: int_add_def INT_MAX_def)
  have a2: "int_add totlen (size' r + 1) = Some (totlen + (size' r + 1))"
    using Cons.prems(2,3) nn r0 by (simp add: int_add_def INT_MAX_def)
  have "CountBytes rs (totlen + (size' r + 1))
      = Some (totlen + (size' r + 1) + sum_list (map (\<lambda>r. size' r + 1) rs))"
    using Cons.prems r0 by (intro Cons.IH) simp_all
  then show ?case
    by (simp add: a1 a2 add.assoc)
qed

text \<open>
  A line of \<open>2^30\<close> bytes is within the limits of \<open>InsertRow\<close> and \<open>UpdateRow\<close>: the
  rows of \<open>two_big_rows\<close> are rows that the editor builds.
\<close>

lemma UpdateRow_big_row:
  "UpdateRow \<lparr> idx = 0, size' = int_of_size_t (length (replicate 1073741824 (CHR ''a''))),
               chars = replicate 1073741824 (CHR ''a''), render = [], hl = [], hl_oc = 0 \<rparr>
     = Returns (plain_row 0 (replicate 1073741824 (CHR ''a'')))"
  by (rule UpdateRow_plain) (simp_all add: TAB_def INT_MAX_def)

text \<open>
  \<^bold>\<open>C7, as stated.\<close> For two rows of \<open>2^30\<close> bytes the sum of \<open>size + 1\<close> is
  \<open>2147483650\<close>, above \<open>INT_MAX\<close>: the addition into \<open>totlen\<close> overflows and
  \<open>RowsToString\<close> has no defined result, neither a buffer nor a \<open>buflen\<close>.
\<close>

theorem RowsToString_overflow:
  "RowsToString two_big_rows = Undefined
   \<and> size' (row two_big_rows ! 0) + 1 + (size' (row two_big_rows ! 1) + 1) = 2147483650
   \<and> INT_MAX = 2147483647"
  by (simp add: RowsToString_def two_big_rows_def plain_row_def int_add_def INT_MAX_def)

text \<open>
  \<^bold>\<open>C7, amended.\<close> For an editor state whose rows hold \<open>size\<close> bytes each and whose
  sum of \<open>size + 1\<close> over the rows is below \<open>INT_MAX\<close>, \<open>RowsToString\<close> returns the bytes
  of every row, each followed by a newline, the last row included, and sets
  \<open>*buflen\<close> to that sum.
\<close>

theorem RowsToString_newline_after_every_row:
  assumes "\<forall>r \<in> set (row st). size' r = int (length (chars r))"
    and "sum_list (map (\<lambda>r. size' r + 1) (row st)) < INT_MAX"
  shows "RowsToString st =
     Returns (concat (map (\<lambda>r. chars r @ [CHR 0x0A]) (row st)),
              sum_list (map (\<lambda>r. size' r + 1) (row st)))"
proof -
  have nn: "\<forall>r \<in> set (row st). 0 \<le> size' r"
    using assms(1) by simp
  have c: "CountBytes (row st) 0 = Some (sum_list (map (\<lambda>r. size' r + 1) (row st)))"
    using CountBytes_sum [OF nn, of 0] assms(2) by simp
  have "0 \<le> sum_list (map (\<lambda>r. size' r + 1) (row st))"
    using nn by (intro sum_list_nonneg) auto
  then have t: "int_add (sum_list (map (\<lambda>r. size' r + 1) (row st))) 1
      = Some (sum_list (map (\<lambda>r. size' r + 1) (row st)) + 1)"
    using assms(2) by (simp add: int_add_def INT_MAX_def)
  show ?thesis
    using CopyRows_concat [OF assms(1), of "[]"]
    by (simp add: RowsToString_def c t)
qed

theorem RowsToString_newline_after_every_row_witness:
  "map size' (row three_rows) = map (\<lambda>r. int (length (chars r))) (row three_rows)
   \<and> sum_list (map (\<lambda>r. size' r + 1) (row three_rows)) < INT_MAX
   \<and> RowsToString three_rows
       = Returns (''first row'' @ [CHR 0x0A] @ ''second row'' @ [CHR 0x0A]
                    @ ''third row'' @ [CHR 0x0A], 31)"
proof -
  have w: "\<forall>r \<in> set (row three_rows). size' r = int (length (chars r))"
    by (simp add: three_rows_def plain_row_def)
  have b: "sum_list (map (\<lambda>r. size' r + 1) (row three_rows)) < INT_MAX"
    by (simp add: three_rows_def plain_row_def INT_MAX_def)
  show ?thesis
    using w b RowsToString_newline_after_every_row [OF w b]
    by (simp add: three_rows_def plain_row_def)
qed

subsection \<open>Deleting a row\<close>

text \<open>
  What \<open>DeleteRow\<close> does to the rows: the row at \<open>at\<close> is gone, the rows behind it
  have moved up by one, and the \<open>idx\<close> of each of them has grown by one.
\<close>

lemma DeleteRow_rows:
  "at < length (row st) \<Longrightarrow>
     row (DeleteRow st at)
       = take at (row st) @ map (\<lambda>r. r \<lparr> idx := idx r + 1 \<rparr>) (drop (Suc at) (row st))"
  by (simp add: DeleteRow_def numrows_def)

lemma DeleteRow_shifted_idx:
  assumes "at < length (row st)" and "at \<le> i" and "Suc i < length (row st)"
  shows "row (DeleteRow st at) ! i = (row st ! Suc i) \<lparr> idx := idx (row st ! Suc i) + 1 \<rparr>"
proof -
  have "(take at (row st) @ map (\<lambda>r. r \<lparr> idx := idx r + 1 \<rparr>) (drop (Suc at) (row st))) ! i
      = map (\<lambda>r. r \<lparr> idx := idx r + 1 \<rparr>) (drop (Suc at) (row st)) ! (i - at)"
    using assms by (simp add: nth_append)
  also have "\<dots> = (row st ! Suc i) \<lparr> idx := idx (row st ! Suc i) + 1 \<rparr>"
    using assms by simp
  finally show ?thesis
    using assms(1) by (simp add: DeleteRow_rows)
qed

text \<open>
  \<^bold>\<open>C5.\<close> In the three-line buffer, deleting row 1 leaves the third line at
  position 1 with \<open>idx = 3\<close>: its index was 2 and was incremented, where the position
  it moved to is 1.
\<close>

theorem DeleteRow_increments_idx:
  "row (DeleteRow three_rows 1) = [plain_row 0 ''first row'', plain_row 3 ''third row'']
   \<and> idx (row (DeleteRow three_rows 1) ! 1) = 3
   \<and> idx (row three_rows ! 2) = 2"
  by (simp add: DeleteRow_def numrows_def three_rows_def plain_row_def)

subsection \<open>Inserting and deleting at the same position\<close>

text \<open>
  At the end of the buffer no row moves, and the pair of operations gives the rows
  back as they were.
\<close>

lemma InsertRow_DeleteRow_at_end:
  assumes "InsertRow st (length (row st)) s = Returns st'"
  shows "row (DeleteRow st' (length (row st))) = row st"
proof -
  from assms obtain r where "row st' = row st @ [r]"
    by (auto simp add: InsertRow_def numrows_def Let_def split: outcome.splits)
  then show ?thesis
    by (simp add: DeleteRow_def numrows_def)
qed

lemma UpdateRow_no_tabs:
  "UpdateRow \<lparr> idx = 1, size' = int_of_size_t (length ''x''), chars = ''x'',
               render = [], hl = [], hl_oc = 0 \<rparr>
     = Returns (plain_row 1 ''x'')"
  by (rule UpdateRow_plain) (simp_all add: TAB_def INT_MAX_def)

text \<open>
  \<^bold>\<open>C6.\<close> In the three-line buffer, inserting a row at position 1 and deleting it
  again leaves the second and third line with \<open>idx\<close> 3 and 4, where they had 1 and 2:
  both operations increment the index of the rows behind the position.
\<close>

theorem InsertRow_DeleteRow_changes_idx:
  "InsertRow three_rows 1 ''x''
     = Returns (three_rows \<lparr> row := [plain_row 0 ''first row'', plain_row 1 ''x'',
                                     plain_row 2 ''second row'', plain_row 3 ''third row''],
                             dirty := 1 \<rparr>)
   \<and> row (DeleteRow (three_rows \<lparr> row := [plain_row 0 ''first row'', plain_row 1 ''x'',
                                     plain_row 2 ''second row'', plain_row 3 ''third row''],
                             dirty := 1 \<rparr>) 1)
       = [plain_row 0 ''first row'', plain_row 3 ''second row'', plain_row 4 ''third row'']
   \<and> row three_rows
       = [plain_row 0 ''first row'', plain_row 1 ''second row'', plain_row 2 ''third row'']"
proof -
  have u: "UpdateRow \<lparr> idx = 1, size' = int_of_size_t (Suc 0), chars = ''x'',
               render = [], hl = [], hl_oc = 0 \<rparr> = Returns (plain_row 1 ''x'')"
    using UpdateRow_no_tabs by simp
  show ?thesis
    by (simp add: InsertRow_def DeleteRow_def numrows_def u)
       (simp add: three_rows_def plain_row_def)
qed

section \<open>Properties of the editor controller\<close>

subsection \<open>Quitting with unsaved changes\<close>

lemma CtrlQ_premature:
  "0 < dirty st \<Longrightarrow> 0 < quit_times st \<Longrightarrow>
     ProcessKeyPressUnlocked other_keys now st CTRL_Q
       = Returns (st \<lparr> statusmsg := take 79 (quit_warning (quit_times st)),
                       statusmsg_time := now, quit_times := quit_times st - 1 \<rparr>)"
  by (simp add: ProcessKeyPressUnlocked_def SetStatusMessage_def)

lemma CtrlQ_final:
  "quit_times st = 0 \<Longrightarrow> ProcessKeyPressUnlocked other_keys now st CTRL_Q = Exit 0"
  by (simp add: ProcessKeyPressUnlocked_def)

lemma CtrlQ_presses_premature:
  "0 < dirty st \<Longrightarrow> int (length moments) \<le> quit_times st \<Longrightarrow>
     \<exists>st'. ProcessKeys other_keys st (CtrlQ_presses moments) = Returns st'
         \<and> quit_times st' = quit_times st - int (length moments)
         \<and> dirty st' = dirty st \<and> row st' = row st"
proof (induction moments arbitrary: st)
  case Nil
  then show ?case by (simp add: CtrlQ_presses_def)
next
  case (Cons now moments)
  define st1 where "st1 = st \<lparr> statusmsg := take 79 (quit_warning (quit_times st)),
                       statusmsg_time := now, quit_times := quit_times st - 1 \<rparr>"
  from Cons.prems have q: "0 < quit_times st" by simp
  have step: "ProcessKeyPressUnlocked other_keys now st CTRL_Q = Returns st1"
    unfolding st1_def using Cons.prems(1) q by (rule CtrlQ_premature)
  have "0 < dirty st1" "int (length moments) \<le> quit_times st1"
    using Cons.prems by (simp_all add: st1_def)
  from Cons.IH [OF this] obtain st' where
    "ProcessKeys other_keys st1 (CtrlQ_presses moments) = Returns st'"
    "quit_times st' = quit_times st1 - int (length moments)"
    "dirty st' = dirty st1" "row st' = row st1"
    by blast
  then show ?case
    using step by (simp add: CtrlQ_presses_def st1_def)
qed

lemma ProcessKeys_append:
  "ProcessKeys other_keys st ks = Returns st' \<Longrightarrow>
     ProcessKeys other_keys st (ks @ ks') = ProcessKeys other_keys st' ks'"
  by (induction ks arbitrary: st) (auto split: outcome.splits)

text \<open>
  \<^bold>\<open>C8.\<close> With unsaved changes (\<open>dirty > 0\<close>), a Ctrl-Q press while
  \<open>quit_times > 0\<close> does not exit: it posts the warning and takes one off
  \<open>quit_times\<close>. A run of Ctrl-Q presses no longer than \<open>quit_times\<close> leaves the
  editor running, and the press after that, the \<open>(quit_times + 1)\<close>-th, exits with
  status 0: the fourth press when the counter starts at 3.
\<close>

theorem CtrlQ_quit_confirmation:
  assumes "0 < dirty st" and "0 \<le> quit_times st"
  shows "(0 < quit_times st \<longrightarrow>
            ProcessKeyPressUnlocked other_keys now st CTRL_Q
              = Returns (st \<lparr> statusmsg := take 79 (quit_warning (quit_times st)),
                              statusmsg_time := now, quit_times := quit_times st - 1 \<rparr>))
       \<and> (int (length moments) \<le> quit_times st \<longrightarrow>
            (\<exists>st'. ProcessKeys other_keys st (CtrlQ_presses moments) = Returns st'
               \<and> quit_times st' = quit_times st - int (length moments)))
       \<and> (int (length moments) = quit_times st + 1 \<longrightarrow>
            ProcessKeys other_keys st (CtrlQ_presses moments) = Exit 0)"
proof (intro conjI impI)
  assume "0 < quit_times st"
  with assms(1) show "ProcessKeyPressUnlocked other_keys now st CTRL_Q
              = Returns (st \<lparr> statusmsg := take 79 (quit_warning (quit_times st)),
                              statusmsg_time := now, quit_times := quit_times st - 1 \<rparr>)"
    by (rule CtrlQ_premature)
next
  assume "int (length moments) \<le> quit_times st"
  with assms(1) CtrlQ_presses_premature [of st moments other_keys]
  show "\<exists>st'. ProcessKeys other_keys st (CtrlQ_presses moments) = Returns st'
               \<and> quit_times st' = quit_times st - int (length moments)"
    by blast
next
  assume l: "int (length moments) = quit_times st + 1"
  then have "moments \<noteq> []" using assms(2) by auto
  then obtain ts t where t: "moments = ts @ [t]"
    by (metis rev_exhaust)
  have lts: "int (length ts) = quit_times st"
    using l unfolding t by simp
  then have "int (length ts) \<le> quit_times st" by simp
  with assms(1) CtrlQ_presses_premature [of st ts other_keys] obtain st' where
    r: "ProcessKeys other_keys st (CtrlQ_presses ts) = Returns st'"
    and q: "quit_times st' = quit_times st - int (length ts)"
    by blast
  from q lts have "quit_times st' = 0" by simp
  then have "ProcessKeyPressUnlocked other_keys t st' CTRL_Q = Exit 0"
    by (rule CtrlQ_final)
  then have "ProcessKeys other_keys st' (CtrlQ_presses [t]) = Exit 0"
    by (simp add: CtrlQ_presses_def)
  with ProcessKeys_append [OF r, of "CtrlQ_presses [t]"] t
  show "ProcessKeys other_keys st (CtrlQ_presses moments) = Exit 0"
    by (simp add: CtrlQ_presses_def)
qed

lemma quit_warning_3:
  "quit_warning 3 = ''WARNING!!! File has unsaved changes. Press Ctrl-Q 3 more times to quit.''"
  by code_simp

theorem CtrlQ_quit_confirmation_witness:
  "0 < dirty dirty_buffer \<and> quit_times dirty_buffer = 3
   \<and> ProcessKeyPressUnlocked (\<lambda>st c. Returns st) 100 dirty_buffer CTRL_Q
       = Returns (dirty_buffer \<lparr> statusmsg :=
            ''WARNING!!! File has unsaved changes. Press Ctrl-Q 3 more times to quit.'',
            statusmsg_time := 100, quit_times := 2 \<rparr>)
   \<and> (\<exists>st'. ProcessKeys (\<lambda>st c. Returns st) dirty_buffer (CtrlQ_presses [100, 101, 102])
               = Returns st' \<and> quit_times st' = 0)
   \<and> ProcessKeys (\<lambda>st c. Returns st) dirty_buffer (CtrlQ_presses [100, 101, 102, 103]) = Exit 0"
proof -
  have d: "0 < dirty dirty_buffer" and q: "0 \<le> quit_times dirty_buffer"
    and q3: "quit_times dirty_buffer = 3"
    by (simp_all add: dirty_buffer_def)
  show ?thesis
    using CtrlQ_quit_confirmation [OF d q, of "\<lambda>st c. Returns st" 100 "[100, 101, 102]"]
      CtrlQ_quit_confirmation [OF d q, of "\<lambda>st c. Returns st" 100 "[100, 101, 102, 103]"]
      d q3
    by (simp add: quit_warning_3)
qed

subsection \<open>Choice of the cipher from the file name\<close>

lemma string_find_Some_iff:
  "string_find s pat \<noteq> None \<longleftrightarrow> (\<exists>pre post. s = pre @ pat @ post)"
proof (induction s)
  case Nil
  then show ?case by auto
next
  case (Cons c cs)
  show ?case
  proof (cases "prefix pat (c # cs)")
    case True
    then obtain post where "c # cs = pat @ post" by (auto simp add: prefix_def)
    then have "c # cs = [] @ pat @ post" by simp
    with True show ?thesis by (metis string_find.simps(2) option.distinct(1))
  next
    case False
    have "(\<exists>pre post. c # cs = pre @ pat @ post) \<longleftrightarrow> (\<exists>pre post. cs = pre @ pat @ post)"
    proof
      assume "\<exists>pre post. c # cs = pre @ pat @ post"
      then obtain pre post where e: "c # cs = pre @ pat @ post" by blast
      show "\<exists>pre post. cs = pre @ pat @ post"
      proof (cases pre)
        case Nil
        with e have "prefix pat (c # cs)" by (simp add: prefix_def)
        with False show ?thesis by simp
      next
        case (Cons a pre')
        with e have "cs = pre' @ pat @ post" by simp
        then show ?thesis by blast
      qed
    next
      assume "\<exists>pre post. cs = pre @ pat @ post"
      then obtain pre post where "cs = pre @ pat @ post" by blast
      then have "c # cs = (c # pre) @ pat @ post" by simp
      then show "\<exists>pre post. c # cs = pre @ pat @ post" by blast
    qed
    with False Cons.IH show ?thesis by simp
  qed
qed

text \<open>
  What the code does: AES-256-CBC is selected exactly for the file names that contain
  \<open>.aes256cbc\<close> somewhere. A name that ends with it is among them. For a name that is
  not selected \<open>HandleEncryption\<close> returns with the state untouched, without a
  password dialogue; for a selected name it records the cipher and runs the dialogue
  for an existing or for a new file.
\<close>

lemma cipher_chosen_iff_substring:
  "(GetCryptoAlgorithmFromFilename filename = kAES256CBC
      \<longleftrightarrow> (\<exists>pre post. filename = pre @ ''.aes256cbc'' @ post))
   \<and> (GetCryptoAlgorithmFromFilename filename \<noteq> kAES256CBC
      \<longrightarrow> GetCryptoAlgorithmFromFilename filename = kDefaultNone
          \<and> HandleEncryption file_exists existing_file new_file st filename provided_keys
              = Some (Returns st))
   \<and> (GetCryptoAlgorithmFromFilename filename = kAES256CBC
      \<longrightarrow> HandleEncryption file_exists existing_file new_file st filename provided_keys
            = (if file_exists filename
               then existing_file (st \<lparr> crypto_algorithm := kAES256CBC \<rparr>) filename provided_keys
               else new_file (st \<lparr> crypto_algorithm := kAES256CBC \<rparr>) provided_keys))"
proof -
  have "string_find filename ''.aes256cbc'' \<noteq> None
      \<longleftrightarrow> (\<exists>pre post. filename = pre @ ''.aes256cbc'' @ post)"
    by (rule string_find_Some_iff)
  then show ?thesis
    by (auto simp add: GetCryptoAlgorithmFromFilename_def HandleEncryption_def Let_def)
qed

lemma cipher_chosen_for_suffix:
  assumes "suffix ''.aes256cbc'' filename"
  shows "GetCryptoAlgorithmFromFilename filename = kAES256CBC"
proof -
  from assms obtain pre where "filename = pre @ ''.aes256cbc'' @ []"
    by (auto simp add: suffix_def)
  then have "\<exists>pre post. filename = pre @ ''.aes256cbc'' @ post"
    by blast
  then show ?thesis
    using cipher_chosen_iff_substring [of filename] by blast
qed

lemma cipher_not_chosen_skips_dialogue:
  "GetCryptoAlgorithmFromFilename ''notes.txt'' = kDefaultNone
   \<and> HandleEncryption (\<lambda>f. True) (\<lambda>st f ks. None) (\<lambda>st ks. None) three_rows ''notes.txt'' []
       = Some (Returns three_rows)"
  by (simp add: GetCryptoAlgorithmFromFilename_def HandleEncryption_def)

text \<open>
  \<^bold>\<open>C4.\<close> The file name \<open>notes.aes256cbc.bak\<close> does not end with the suffix
  \<open>.aes256cbc\<close>, and neither does \<open>dir.aes256cbc/notes.txt\<close>; AES-256-CBC is selected
  for both, and \<open>HandleEncryption\<close> runs the password dialogue for them.
\<close>

theorem cipher_chosen_without_suffix:
  "\<not> suffix ''.aes256cbc'' ''notes.aes256cbc.bak''
   \<and> GetCryptoAlgorithmFromFilename ''notes.aes256cbc.bak'' = kAES256CBC
   \<and> \<not> suffix ''.aes256cbc'' ''dir.aes256cbc/notes.txt''
   \<and> GetCryptoAlgorithmFromFilename ''dir.aes256cbc/notes.txt'' = kAES256CBC
   \<and> HandleEncryption (\<lambda>f. False) (\<lambda>st f ks. None) (\<lambda>st ks. Some (Returns st)) three_rows
         ''notes.aes256cbc.bak'' []
       = Some (Returns (three_rows \<lparr> crypto_algorithm := kAES256CBC \<rparr>))"
  by (simp add: GetCryptoAlgorithmFromFilename_def HandleEncryption_def suffix_to_prefix)


end
